theory Spec2Isabelle
  imports Main "HOL-Library.Finite_Map" "HOL-Library.Sublist"
begin

section \<open>Python values\<close>

text \<open>
  The payloads, the dictionaries produced by \<^verbatim>\<open>to_dict\<close> and the dictionaries read by
  \<^verbatim>\<open>from_dict\<close> are plain key-value trees. A value is \<^verbatim>\<open>None\<close>, an integer
  (\<^verbatim>\<open>bool\<close> is a subclass of \<^verbatim>\<open>int\<close> in Python, \<^verbatim>\<open>True == 1\<close>), a string, a list
  or a dictionary with string keys. Dictionaries are finite maps, so equality of values is
  Python's \<^verbatim>\<open>==\<close> (which ignores the insertion order of a dictionary). Floating point
  numbers are not part of the model.

  A dataclass does not check the annotations of its fields: a field that the code fills with
  whatever it was handed holds a \<open>pyval\<close>.
\<close>

datatype pyval =
    PNone
  | PInt int
  | PStr string
  | PList "pyval list"
  | PDict "(string, pyval) fmap"

type_synonym pydict = "(string, pyval) fmap"

text \<open>The exceptions raised by the (de)serialisation code.\<close>

datatype error =
    KeyError string
  | ValueError pyval
  | TypeError
  | AttributeError

text \<open>Truth value of an object in a condition (\<^verbatim>\<open>if x:\<close>).\<close>

fun truthy :: "pyval \<Rightarrow> bool" where
  "truthy PNone = False"
| "truthy (PInt i) = (i \<noteq> 0)"
| "truthy (PStr s) = (s \<noteq> [])"
| "truthy (PList xs) = (xs \<noteq> [])"
| "truthy (PDict m) = (m \<noteq> fmempty)"

text \<open>\<^verbatim>\<open>d[k]\<close> and \<^verbatim>\<open>d.get(k, default)\<close> on a dictionary.\<close>

definition getitem :: "pydict \<Rightarrow> string \<Rightarrow> error + pyval" where
  "getitem d k = (case fmlookup d k of None \<Rightarrow> Inl (KeyError k) | Some v \<Rightarrow> Inr v)"

definition get_default :: "pydict \<Rightarrow> string \<Rightarrow> pyval \<Rightarrow> pyval" where
  "get_default d k dflt = (case fmlookup d k of None \<Rightarrow> dflt | Some v \<Rightarrow> v)"

text \<open>Sequencing of computations that may raise: the first exception wins.\<close>

definition and_then :: "error + 'a \<Rightarrow> ('a \<Rightarrow> error + 'b) \<Rightarrow> error + 'b" where
  "and_then r f = (case r of Inl e \<Rightarrow> Inl e | Inr v \<Rightarrow> f v)"

text \<open>
  \<^verbatim>\<open>s in v\<close> for a string \<open>s\<close>: a substring test on a string, membership in a list, key
  membership in a dictionary, and a \<^verbatim>\<open>TypeError\<close> on \<^verbatim>\<open>None\<close> and on an integer.
\<close>

fun py_contains :: "string \<Rightarrow> pyval \<Rightarrow> error + bool" where
  "py_contains s (PStr t) = Inr (sublist s t)"
| "py_contains s (PList xs) = Inr (PStr s \<in> set xs)"
| "py_contains s (PDict m) = Inr (fmlookup m s \<noteq> None)"
| "py_contains s (PInt i) = Inl TypeError"
| "py_contains s PNone = Inl TypeError"

section \<open>Message model of \<^verbatim>\<open>a2a_protocol.py\<close> (legacy envelope)\<close>

datatype MessageType = REQUEST | RESPONSE | NOTIFICATION | ERROR

datatype AgentRole = COMPANY_AGENT | PERSON_AGENT | COORDINATOR | WEATHER_AGENT

fun MessageType_value :: "MessageType \<Rightarrow> string" where
  "MessageType_value REQUEST = ''request''"
| "MessageType_value RESPONSE = ''response''"
| "MessageType_value NOTIFICATION = ''notification''"
| "MessageType_value ERROR = ''error''"

fun AgentRole_value :: "AgentRole \<Rightarrow> string" where
  "AgentRole_value COMPANY_AGENT = ''company_agent''"
| "AgentRole_value PERSON_AGENT = ''person_agent''"
| "AgentRole_value COORDINATOR = ''coordinator''"
| "AgentRole_value WEATHER_AGENT = ''weather_agent''"

text \<open>
  \<^verbatim>\<open>MessageType(v)\<close> and \<^verbatim>\<open>AgentRole(v)\<close>: the member whose value is \<open>v\<close>, and
  \<^verbatim>\<open>ValueError\<close> when there is none.
\<close>

definition MessageType_of :: "pyval \<Rightarrow> error + MessageType" where
  "MessageType_of v =
     (if v = PStr ''request'' then Inr REQUEST
      else if v = PStr ''response'' then Inr RESPONSE
      else if v = PStr ''notification'' then Inr NOTIFICATION
      else if v = PStr ''error'' then Inr ERROR
      else Inl (ValueError v))"

definition AgentRole_of :: "pyval \<Rightarrow> error + AgentRole" where
  "AgentRole_of v =
     (if v = PStr ''company_agent'' then Inr COMPANY_AGENT
      else if v = PStr ''person_agent'' then Inr PERSON_AGENT
      else if v = PStr ''coordinator'' then Inr COORDINATOR
      else if v = PStr ''weather_agent'' then Inr WEATHER_AGENT
      else Inl (ValueError v))"

text \<open>
  Both envelope classes carry the same routing fields, and both buses run the same code
  on them. The routing fields are a record of their own; the legacy \<^verbatim>\<open>A2AMessage\<close> and the
  standard \<^verbatim>\<open>AgentMessage\<close> extend it. \<open>in_reply_to = PNone\<close> is Python's \<^verbatim>\<open>None\<close>.
\<close>

record routing =
  sender :: AgentRole
  receiver :: AgentRole
  message_id :: pyval
  timestamp :: pyval
  in_reply_to :: pyval

record A2AMessage = routing +
  message_type :: MessageType
  content :: pyval

definition A2AMessage_to_dict :: "A2AMessage \<Rightarrow> pydict" where
  "A2AMessage_to_dict m = fmap_of_list
     [(''sender'', PStr (AgentRole_value (sender m))),
      (''receiver'', PStr (AgentRole_value (receiver m))),
      (''message_type'', PStr (MessageType_value (message_type m))),
      (''content'', content m),
      (''message_id'', message_id m),
      (''timestamp'', timestamp m),
      (''in_reply_to'', in_reply_to m)]"

text \<open>The keyword arguments of \<^verbatim>\<open>cls(...)\<close> are evaluated from left to right.\<close>

definition A2AMessage_from_dict :: "pydict \<Rightarrow> error + A2AMessage" where
  "A2AMessage_from_dict data =
     and_then (and_then (getitem data ''sender'') AgentRole_of) (\<lambda>s.
     and_then (and_then (getitem data ''receiver'') AgentRole_of) (\<lambda>r.
     and_then (and_then (getitem data ''message_type'') MessageType_of) (\<lambda>t.
     and_then (getitem data ''content'') (\<lambda>c.
     and_then (getitem data ''message_id'') (\<lambda>i.
     and_then (getitem data ''timestamp'') (\<lambda>ts.
       Inr \<lparr>sender = s, receiver = r, message_id = i, timestamp = ts,
            in_reply_to = get_default data ''in_reply_to'' PNone,
            message_type = t, content = c\<rparr>))))))"

text \<open>
  The constructors. \<^verbatim>\<open>uuid.uuid4()\<close> and \<^verbatim>\<open>datetime.now()\<close> are inputs from the environment:
  \<open>uuid\<close> and \<open>now\<close> are the strings they returned.
\<close>

definition create_message ::
  "string \<Rightarrow> string \<Rightarrow> AgentRole \<Rightarrow> AgentRole \<Rightarrow> MessageType \<Rightarrow> pyval \<Rightarrow> pyval \<Rightarrow> A2AMessage" where
  "create_message uuid now s r t c reply_to =
     \<lparr>sender = s, receiver = r, message_id = PStr uuid, timestamp = PStr now,
      in_reply_to = reply_to, message_type = t, content = c\<rparr>"

definition create_request ::
  "string \<Rightarrow> string \<Rightarrow> AgentRole \<Rightarrow> AgentRole \<Rightarrow> string \<Rightarrow> pyval \<Rightarrow> A2AMessage" where
  "create_request uuid now s r action params =
     create_message uuid now s r REQUEST
       (PDict (fmap_of_list [(''action'', PStr action), (''params'', params)])) PNone"

definition create_response ::
  "string \<Rightarrow> string \<Rightarrow> AgentRole \<Rightarrow> AgentRole \<Rightarrow> pyval \<Rightarrow> string \<Rightarrow> A2AMessage" where
  "create_response uuid now s r data reply_to =
     create_message uuid now s r RESPONSE
       (PDict (fmap_of_list [(''data'', data)])) (PStr reply_to)"

definition create_notification ::
  "string \<Rightarrow> string \<Rightarrow> AgentRole \<Rightarrow> AgentRole \<Rightarrow> string \<Rightarrow> pyval \<Rightarrow> A2AMessage" where
  "create_notification uuid now s r event data =
     create_message uuid now s r NOTIFICATION
       (PDict (fmap_of_list [(''event'', PStr event), (''data'', data)])) PNone"

definition create_error ::
  "string \<Rightarrow> string \<Rightarrow> AgentRole \<Rightarrow> AgentRole \<Rightarrow> string \<Rightarrow> string \<Rightarrow> A2AMessage" where
  "create_error uuid now s r err reply_to =
     create_message uuid now s r ERROR
       (PDict (fmap_of_list [(''error'', PStr err)])) (PStr reply_to)"

section \<open>Message model of \<^verbatim>\<open>a2a_standard_protocol.py\<close> (standard format)\<close>

text \<open>
  \<^verbatim>\<open>Part = Union[TextPart, JsonPart, FilePart]\<close>. The fields are, in the order of the
  dataclasses: \<^verbatim>\<open>type, text\<close>; \<^verbatim>\<open>type, json\<close>; \<^verbatim>\<open>type, uri, data, filename\<close>.
\<close>

datatype Part =
    TextPart pyval pyval
  | JsonPart pyval pyval
  | FilePart pyval pyval pyval pyval

text \<open>The class \<^verbatim>\<open>A2AMessage\<close> of the standard protocol.\<close>

record A2AMessage_std =
  role :: pyval
  parts :: "Part list"
  metadata :: pyval

text \<open>\<^verbatim>\<open>FilePart.to_dict\<close> writes \<^verbatim>\<open>uri\<close>, \<^verbatim>\<open>data\<close> and \<^verbatim>\<open>filename\<close> only when they are truthy.\<close>

fun Part_to_dict :: "Part \<Rightarrow> pydict" where
  "Part_to_dict (TextPart t x) = fmap_of_list [(''type'', t), (''text'', x)]"
| "Part_to_dict (JsonPart t j) = fmap_of_list [(''type'', t), (''json'', j)]"
| "Part_to_dict (FilePart t u d f) =
     (let result = fmap_of_list [(''type'', t)];
          result = (if truthy u then fmupd ''uri'' u result else result);
          result = (if truthy d then fmupd ''data'' d result else result);
          result = (if truthy f then fmupd ''filename'' f result else result)
      in result)"

definition A2AMessage_std_to_dict :: "A2AMessage_std \<Rightarrow> pydict" where
  "A2AMessage_std_to_dict m = fmap_of_list
     [(''role'', role m),
      (''parts'', PList (map (\<lambda>p. PDict (Part_to_dict p)) (parts m))),
      (''metadata'', metadata m)]"

text \<open>
  One round of the loop of \<^verbatim>\<open>from_dict\<close>: the Part appended for \<open>part_data\<close>, \<open>None\<close> when
  no branch of the \<^verbatim>\<open>if/elif\<close> chain is taken (the chain has no \<^verbatim>\<open>else\<close>), or the exception
  raised. Only a dictionary has a \<^verbatim>\<open>get\<close> method.
\<close>

fun decode_part :: "pyval \<Rightarrow> error + Part option" where
  "decode_part (PDict part_data) =
     (let part_type = get_default part_data ''type'' (PStr '''') in
      if part_type \<in> set [PStr ''text'', PStr ''text/plain''] then
        Inr (Some (TextPart part_type (get_default part_data ''text'' (PStr ''''))))
      else if part_type \<in> set [PStr ''json'', PStr ''application/json''] then
        Inr (Some (JsonPart part_type (get_default part_data ''json'' PNone)))
      else
        and_then (py_contains ''file'' part_type) (\<lambda>has_file.
        and_then (if has_file then Inr True else py_contains ''/'' part_type) (\<lambda>is_file.
          if is_file then
            Inr (Some (FilePart part_type
                   (get_default part_data ''uri'' PNone)
                   (get_default part_data ''data'' PNone)
                   (get_default part_data ''filename'' PNone)))
          else Inr None)))"
| "decode_part _ = Inl AttributeError"

text \<open>The \<^verbatim>\<open>for\<close> loop, with the list \<^verbatim>\<open>parts\<close> built so far.\<close>

fun decode_parts :: "pyval list \<Rightarrow> Part list \<Rightarrow> error + Part list" where
  "decode_parts [] acc = Inr acc"
| "decode_parts (part_data # rest) acc =
     and_then (decode_part part_data) (\<lambda>r.
       case r of None \<Rightarrow> decode_parts rest acc
               | Some p \<Rightarrow> decode_parts rest (acc @ [p]))"

text \<open>
  What \<^verbatim>\<open>for part_data in v\<close> iterates over. A string yields its characters and a
  dictionary its keys, all of them strings; \<^verbatim>\<open>None\<close> and an integer are not iterable.
  The keys of a dictionary are listed as \<open>PStr\<close> values in no particular order: the loop
  raises at the first of them whichever it is.
\<close>

fun py_iter :: "pyval \<Rightarrow> error + pyval list" where
  "py_iter (PList xs) = Inr xs"
| "py_iter (PStr s) = Inr (map (\<lambda>c. PStr [c]) s)"
| "py_iter (PDict m) = Inr (if m = fmempty then [] else [PStr []])"
| "py_iter (PInt i) = Inl TypeError"
| "py_iter PNone = Inl TypeError"

definition A2AMessage_std_from_dict :: "pydict \<Rightarrow> error + A2AMessage_std" where
  "A2AMessage_std_from_dict data =
     and_then (py_iter (get_default data ''parts'' (PList []))) (\<lambda>items.
     and_then (decode_parts items []) (\<lambda>ps.
     and_then (getitem data ''role'') (\<lambda>r.
       Inr \<lparr>role = r, parts = ps, metadata = get_default data ''metadata'' (PDict fmempty)\<rparr>)))"

text \<open>
  The helper constructors. \<^verbatim>\<open>metadata or {}\<close> is the empty dictionary when no metadata
  (or an empty one) is given.
\<close>

definition or_empty :: "pydict option \<Rightarrow> pydict" where
  "or_empty md = (case md of None \<Rightarrow> fmempty | Some m \<Rightarrow> m)"

definition create_text_message :: "pyval \<Rightarrow> pyval \<Rightarrow> pydict option \<Rightarrow> A2AMessage_std" where
  "create_text_message r txt md =
     \<lparr>role = r, parts = [TextPart (PStr ''text'') txt], metadata = PDict (or_empty md)\<rparr>"

definition create_json_message :: "pyval \<Rightarrow> pyval \<Rightarrow> pydict option \<Rightarrow> A2AMessage_std" where
  "create_json_message r data md =
     \<lparr>role = r, parts = [JsonPart (PStr ''json'') data], metadata = PDict (or_empty md)\<rparr>"

definition create_request_message :: "string \<Rightarrow> pyval \<Rightarrow> pydict option \<Rightarrow> A2AMessage_std" where
  "create_request_message action params md =
     (let request_data = PDict (fmap_of_list [(''action'', PStr action), (''params'', params)]);
          meta = fmupd ''message_type'' (PStr ''request'') (or_empty md)
      in \<lparr>role = PStr ''user'',
          parts = [TextPart (PStr ''text'') (PStr (''Request: '' @ action)),
                   JsonPart (PStr ''json'') request_data],
          metadata = PDict meta\<rparr>)"

definition create_response_message :: "pyval \<Rightarrow> pydict option \<Rightarrow> A2AMessage_std" where
  "create_response_message data md =
     (let meta = fmupd ''message_type'' (PStr ''response'') (or_empty md)
      in \<lparr>role = PStr ''agent'', parts = [JsonPart (PStr ''json'') data], metadata = PDict meta\<rparr>)"

text \<open>The routing shell \<^verbatim>\<open>AgentMessage\<close> around a standard message.\<close>

record AgentMessage = routing +
  message :: A2AMessage_std

definition create_agent_message ::
  "string \<Rightarrow> string \<Rightarrow> AgentRole \<Rightarrow> AgentRole \<Rightarrow> A2AMessage_std \<Rightarrow> pyval \<Rightarrow> AgentMessage" where
  "create_agent_message uuid now s r m reply_to =
     \<lparr>sender = s, receiver = r, message_id = PStr uuid, timestamp = PStr now,
      in_reply_to = reply_to, message = m\<rparr>"

section \<open>The message bus\<close>

text \<open>
  A handler is called with the envelope. It returns an envelope or \<^verbatim>\<open>None\<close>, or raises;
  whatever else it does (the tools it calls, what it prints) is a change of a state \<open>'w\<close>
  of its own. No handler of the repository calls back into the bus, and the handlers here
  do not touch the bus either. \<open>Exception s\<close> is a raised exception of a class derived from
  \<^verbatim>\<open>Exception\<close> with \<^verbatim>\<open>str(e) = s\<close>; \<open>BaseException s\<close> is one that is not
  (\<^verbatim>\<open>KeyboardInterrupt\<close>, \<^verbatim>\<open>SystemExit\<close>). \<open>Log_format_error\<close> is the exception that the
  bus of \<^verbatim>\<open>a2a_standard_protocol.py\<close> raises itself, while it formats the log line of a text
  Part whose text cannot be measured or cut: a \<^verbatim>\<open>TypeError\<close> (a \<^verbatim>\<open>KeyError\<close> where a newer
  Python hashes the slice of a dictionary), of a class derived from \<^verbatim>\<open>Exception\<close>.
\<close>

datatype raised = Exception string | BaseException string | Log_format_error

fun derives_from_Exception :: "raised \<Rightarrow> bool" where
  "derives_from_Exception (Exception s) = True"
| "derives_from_Exception (BaseException s) = False"
| "derives_from_Exception Log_format_error = True"

type_synonym ('m, 'w) handler = "'m \<Rightarrow> 'w \<Rightarrow> (raised + 'm option) \<times> 'w"

text \<open>
  What the bus prints, one value per \<^verbatim>\<open>print\<close> or \<^verbatim>\<open>_log\<close> statement or block of them, with
  the values the text is formatted from: \<open>Out_sending\<close> is the block of lines that describes
  the routing fields of the envelope being sent (with the role and the number of Parts, in
  the standard bus), \<open>Out_part\<close> the line for one Part and its number, \<open>Out_response\<close> the
  block that describes the response.
\<close>

datatype 'm printed =
    Out_initialized
  | Out_registered AgentRole
  | Out_sending 'm
  | Out_part nat Part
  | Out_metadata pyval
  | Out_in_reply_to pyval
  | Out_added nat
  | Out_routing AgentRole
  | Out_response 'm
  | Out_no_response
  | Out_handler_error raised
  | Out_no_handler AgentRole

text \<open>
  The state the two \<^verbatim>\<open>MessageBus\<close> classes share, and what they printed so far. The bus of
  \<^verbatim>\<open>a2a_protocol.py\<close> has a \<^verbatim>\<open>message_queue\<close> as well (it never uses it); the bus of
  \<^verbatim>\<open>a2a_standard_protocol.py\<close> has the flag \<^verbatim>\<open>verbose\<close>.
\<close>

record ('m, 'w) bus_state =
  message_history :: "'m list"
  agent_handlers :: "AgentRole \<rightharpoonup> ('m, 'w) handler"
  console :: "'m printed list"

record ('m, 'w) MessageBus = "('m, 'w) bus_state" +
  message_queue :: "'m list"

record ('m, 'w) MessageBus_std = "('m, 'w) bus_state" +
  verbose :: bool

definition MessageBus_init :: "('m, 'w) MessageBus" where
  "MessageBus_init =
     \<lparr>message_history = [], agent_handlers = Map.empty, console = [], message_queue = []\<rparr>"

definition print_line :: "'m printed \<Rightarrow> ('m, 'w, 'z) bus_state_scheme \<Rightarrow> ('m, 'w, 'z) bus_state_scheme" where
  "print_line l bus = bus\<lparr>console := console bus @ [l]\<rparr>"

text \<open>\<^verbatim>\<open>_log\<close> prints only when the bus is verbose.\<close>

definition log_line :: "'m printed \<Rightarrow> ('m, 'w) MessageBus_std \<Rightarrow> ('m, 'w) MessageBus_std" where
  "log_line l bus = (if verbose bus then print_line l bus else bus)"

definition MessageBus_std_init :: "bool \<Rightarrow> ('m, 'w) MessageBus_std" where
  "MessageBus_std_init v =
     log_line Out_initialized
       \<lparr>message_history = [], agent_handlers = Map.empty, console = [], verbose = v\<rparr>"

definition register_agent ::
  "AgentRole \<Rightarrow> ('m, 'w) handler \<Rightarrow> ('m, 'w) MessageBus \<Rightarrow> ('m, 'w) MessageBus" where
  "register_agent r h bus =
     print_line (Out_registered r) (bus\<lparr>agent_handlers := (agent_handlers bus)(r \<mapsto> h)\<rparr>)"

definition register_agent_std ::
  "AgentRole \<Rightarrow> ('m, 'w) handler \<Rightarrow> ('m, 'w) MessageBus_std \<Rightarrow> ('m, 'w) MessageBus_std" where
  "register_agent_std r h bus =
     log_line (Out_registered r) (bus\<lparr>agent_handlers := (agent_handlers bus)(r \<mapsto> h)\<rparr>)"

definition append_history :: "'m \<Rightarrow> ('m, 'w, 'z) bus_state_scheme \<Rightarrow> ('m, 'w, 'z) bus_state_scheme" where
  "append_history m bus = bus\<lparr>message_history := message_history bus @ [m]\<rparr>"

text \<open>
  \<^verbatim>\<open>MessageBus.send_message\<close> of \<^verbatim>\<open>a2a_protocol.py\<close>. The result is the exception that
  leaves the call, or the value returned. There is no \<^verbatim>\<open>try\<close>: an exception of the handler
  leaves the call as it is.
\<close>

definition send_message ::
  "('a routing_scheme, 'w) MessageBus \<Rightarrow> 'a routing_scheme \<Rightarrow> 'w \<Rightarrow>
     (raised + 'a routing_scheme option) \<times> ('a routing_scheme, 'w) MessageBus \<times> 'w" where
  "send_message bus msg w =
     (let bus = print_line (Out_sending msg) bus;
          bus = append_history msg bus
      in case agent_handlers bus (receiver msg) of
           None \<Rightarrow> (Inr None, print_line (Out_no_handler (receiver msg)) bus, w)
         | Some handler \<Rightarrow>
             (case handler msg w of
                (Inl e, w') \<Rightarrow> (Inl e, bus, w')
              | (Inr None, w') \<Rightarrow> (Inr None, bus, w')
              | (Inr (Some response), w') \<Rightarrow>
                  (Inr (Some response),
                   print_line (Out_response response) (append_history response bus), w')))"

text \<open>
  The log line of a text Part is formatted from
  \<^verbatim>\<open>part.text[:50] + "..." if len(part.text) > 50 else part.text\<close>. \<^verbatim>\<open>len\<close> raises for
  \<^verbatim>\<open>None\<close> and for an integer; for more than 50 entries the slice is taken and the string
  added to it, which raises for a list and for a dictionary. The lines of the other Parts
  are formatted from any values.
\<close>

fun text_formats :: "pyval \<Rightarrow> bool" where
  "text_formats (PStr s) = True"
| "text_formats (PList xs) = (length xs \<le> 50)"
| "text_formats (PDict m) = (fcard (fmdom m) \<le> 50)"
| "text_formats (PInt i) = False"
| "text_formats PNone = False"

fun part_formats :: "Part \<Rightarrow> bool" where
  "part_formats (TextPart t x) = text_formats x"
| "part_formats (JsonPart t j) = True"
| "part_formats (FilePart t u d f) = True"

text \<open>
  The loop over \<^verbatim>\<open>enumerate(parts, 1)\<close> that logs the Parts. The argument of \<^verbatim>\<open>_log\<close> is
  formatted before the call, whether the bus is verbose or not: the loop stops with the
  exception at the first Part whose line cannot be formatted, with the lines before it
  printed.
\<close>

fun log_parts ::
  "nat \<Rightarrow> Part list \<Rightarrow> ('m, 'w) MessageBus_std \<Rightarrow> raised option \<times> ('m, 'w) MessageBus_std" where
  "log_parts i [] bus = (None, bus)"
| "log_parts i (part # rest) bus =
     (if part_formats part then log_parts (Suc i) rest (log_line (Out_part i part) bus)
      else (Some Log_format_error, bus))"

text \<open>
  \<^verbatim>\<open>MessageBus.send_message\<close> of \<^verbatim>\<open>a2a_standard_protocol.py\<close>. The envelope is described in
  the log before it is added to the history, so an exception of that description leaves
  the call with nothing added and no handler called. \<^verbatim>\<open>except Exception\<close> catches the
  exceptions of the handler derived from \<^verbatim>\<open>Exception\<close>, logs them and raises them again;
  any other exception leaves the call without passing through the \<^verbatim>\<open>except\<close> clause.
\<close>

definition send_message_std ::
  "('a AgentMessage_scheme, 'w) MessageBus_std \<Rightarrow> 'a AgentMessage_scheme \<Rightarrow> 'w \<Rightarrow>
     (raised + 'a AgentMessage_scheme option) \<times> ('a AgentMessage_scheme, 'w) MessageBus_std \<times> 'w" where
  "send_message_std bus msg w =
     (let bus = log_line (Out_sending msg) bus
      in case log_parts 1 (parts (message msg)) bus of
           (Some e, bus) \<Rightarrow> (Inl e, bus, w)
         | (None, bus) \<Rightarrow>
             (let bus = (if truthy (metadata (message msg))
                         then log_line (Out_metadata (metadata (message msg))) bus else bus);
                  bus = (if truthy (in_reply_to msg)
                         then log_line (Out_in_reply_to (in_reply_to msg)) bus else bus);
                  bus = append_history msg bus;
                  bus = log_line (Out_added (length (message_history bus))) bus
              in case agent_handlers bus (receiver msg) of
                   None \<Rightarrow> (Inr None, log_line (Out_no_handler (receiver msg)) bus, w)
                 | Some handler \<Rightarrow>
                     (let bus = log_line (Out_routing (receiver msg)) bus
                      in case handler msg w of
                           (Inl e, w') \<Rightarrow>
                             (Inl e,
                              if derives_from_Exception e
                              then log_line (Out_handler_error e) bus else bus, w')
                         | (Inr None, w') \<Rightarrow> (Inr None, log_line Out_no_response bus, w')
                         | (Inr (Some response), w') \<Rightarrow>
                             (Inr (Some response),
                              log_line (Out_response response) (append_history response bus),
                              w'))))"

text \<open>
  A caller making one call after another and keeping what each call gave (the exception,
  when it raised).
\<close>

fun send_messages ::
  "('a routing_scheme, 'w) MessageBus \<Rightarrow> 'a routing_scheme list \<Rightarrow> 'w \<Rightarrow>
     (raised + 'a routing_scheme option) list \<times> ('a routing_scheme, 'w) MessageBus \<times> 'w" where
  "send_messages bus [] w = ([], bus, w)"
| "send_messages bus (msg # msgs) w =
     (case send_message bus msg w of
        (r, bus', w') \<Rightarrow>
          (case send_messages bus' msgs w' of (rs, bus'', w'') \<Rightarrow> (r # rs, bus'', w'')))"

fun send_messages_std ::
  "('a AgentMessage_scheme, 'w) MessageBus_std \<Rightarrow> 'a AgentMessage_scheme list \<Rightarrow> 'w \<Rightarrow>
     (raised + 'a AgentMessage_scheme option) list \<times>
     ('a AgentMessage_scheme, 'w) MessageBus_std \<times> 'w" where
  "send_messages_std bus [] w = ([], bus, w)"
| "send_messages_std bus (msg # msgs) w =
     (case send_message_std bus msg w of
        (r, bus', w') \<Rightarrow>
          (case send_messages_std bus' msgs w' of (rs, bus'', w'') \<Rightarrow> (r # rs, bus'', w'')))"

text \<open>The number of history entries a call with this outcome accounts for.\<close>

fun entries_of :: "raised + 'm option \<Rightarrow> nat" where
  "entries_of (Inr (Some response)) = 2"
| "entries_of _ = 1"

section \<open>The conversation threader\<close>

text \<open>
  \<^verbatim>\<open>get_conversation\<close> is the same code in both buses. Its \<^verbatim>\<open>while True\<close> loop need not
  end (a message that replies to itself is found again and again), so the loop is a
  partial function: \<open>None\<close> is a run that never returns.
  \<^verbatim>\<open>next((m for m in history if c), None)\<close> is the first entry that satisfies \<open>c\<close>.
\<close>

partial_function (option) find_replies ::
  "'a routing_scheme list \<Rightarrow> pyval \<Rightarrow> 'a routing_scheme list \<Rightarrow> 'a routing_scheme list option" where
  "find_replies history current_id conversation =
     (case find (\<lambda>m. in_reply_to m = current_id) history of
        None \<Rightarrow> Some conversation
      | Some reply \<Rightarrow> find_replies history (message_id reply) (conversation @ [reply]))"

definition get_conversation ::
  "('a routing_scheme, 'w, 'z) bus_state_scheme \<Rightarrow> pyval \<Rightarrow> 'a routing_scheme list option" where
  "get_conversation bus mid =
     (case find (\<lambda>m. message_id m = mid) (message_history bus) of
        None \<Rightarrow> Some []
      | Some initial \<Rightarrow> find_replies (message_history bus) mid [initial])"

section \<open>Tasks (\<^verbatim>\<open>a2a_task_context.py\<close>)\<close>

datatype TaskState =
  SUBMITTED | WORKING | INPUT_REQUIRED | COMPLETED | CANCELED | FAILED | UNKNOWN

record TaskStatus =
  state :: TaskState
  status_message :: "A2AMessage_std option"
  status_timestamp :: string

text \<open>The fields \<^verbatim>\<open>id\<close> and \<^verbatim>\<open>metadata\<close> of a task are \<open>task_id\<close> and \<open>task_metadata\<close> here.\<close>

record Task =
  task_id :: string
  session_id :: string
  status :: TaskStatus
  history :: "A2AMessage_std list"
  artifacts :: "pyval list"
  task_metadata :: pyval

text \<open>
  \<^verbatim>\<open>Task(session_id=s, metadata=md)\<close>: the other fields take their defaults. \<open>uuid\<close> is what
  \<^verbatim>\<open>uuid.uuid4()\<close> returned for the id and \<open>now\<close> the clock's reading for the status.
\<close>

definition Task_init :: "string \<Rightarrow> string \<Rightarrow> string \<Rightarrow> pyval \<Rightarrow> Task" where
  "Task_init uuid now s md =
     \<lparr>task_id = uuid, session_id = s,
      status = \<lparr>state = SUBMITTED, status_message = None, status_timestamp = now\<rparr>,
      history = [], artifacts = [], task_metadata = md\<rparr>"

definition add_message :: "A2AMessage_std \<Rightarrow> Task \<Rightarrow> Task" where
  "add_message msg t = t\<lparr>history := history t @ [msg]\<rparr>"

definition update_status :: "string \<Rightarrow> TaskState \<Rightarrow> A2AMessage_std option \<Rightarrow> Task \<Rightarrow> Task" where
  "update_status now st msg t =
     t\<lparr>status := \<lparr>state = st, status_message = msg, status_timestamp = now\<rparr>\<rparr>"

definition add_artifact :: "pyval \<Rightarrow> Task \<Rightarrow> Task" where
  "add_artifact artifact t = t\<lparr>artifacts := artifacts t @ [artifact]\<rparr>"

text \<open>
  The slice \<^verbatim>\<open>xs[i:]\<close>: a negative \<open>i\<close> counts from the end, and a start before the first
  entry is the first entry.
\<close>

definition slice_from :: "'a list \<Rightarrow> int \<Rightarrow> 'a list" where
  "slice_from xs i =
     (if i < 0 then drop (nat (int (length xs) + i)) xs else drop (nat i) xs)"

text \<open>
  \<^verbatim>\<open>Task.get_context\<close>, as the value of the list it returns. \<^verbatim>\<open>if max_messages:\<close> is false
  for \<^verbatim>\<open>None\<close> and for \<open>0\<close>.
\<close>

definition get_context :: "Task \<Rightarrow> int option \<Rightarrow> A2AMessage_std list" where
  "get_context t max_messages =
     (case max_messages of
        Some n \<Rightarrow> if n \<noteq> 0 then slice_from (history t) (- n) else history t
      | None \<Rightarrow> history t)"

text \<open>
  The same method on list objects, for what a caller can do to the list it gets. A store
  holds the list objects, the address of an object being its index; \<open>h\<close> is the address of
  \<^verbatim>\<open>self.history\<close>. Both the slice and \<^verbatim>\<open>copy()\<close> make a new list object: the method returns
  its address.
\<close>

definition get_context_obj :: "'a list list \<Rightarrow> nat \<Rightarrow> int option \<Rightarrow> nat \<times> 'a list list" where
  "get_context_obj store h max_messages =
     (let result =
        (case max_messages of
           Some n \<Rightarrow> if n \<noteq> 0 then slice_from (store ! h) (- n) else store ! h
         | None \<Rightarrow> store ! h)
      in (length store, store @ [result]))"

section \<open>The task manager\<close>

record TaskManager =
  tasks :: "string \<rightharpoonup> Task"
  sessions :: "string \<rightharpoonup> string list"

definition TaskManager_init :: TaskManager where
  "TaskManager_init = \<lparr>tasks = Map.empty, sessions = Map.empty\<rparr>"

text \<open>
  \<^verbatim>\<open>create_task\<close>. \<^verbatim>\<open>session_id or str(uuid.uuid4())\<close> takes a new identifier when no
  \<^verbatim>\<open>session_id\<close> is given and when the one given is the empty string. \<open>uuid_s\<close> and \<open>uuid_t\<close>
  are what \<^verbatim>\<open>uuid.uuid4()\<close> returns for the session and for the task.
\<close>

definition create_task ::
  "string \<Rightarrow> string \<Rightarrow> string \<Rightarrow> string option \<Rightarrow> pydict option \<Rightarrow> TaskManager \<Rightarrow>
     Task \<times> TaskManager" where
  "create_task uuid_s uuid_t now sid md mgr =
     (let task = Task_init uuid_t now
                   (case sid of None \<Rightarrow> uuid_s | Some s \<Rightarrow> if s \<noteq> [] then s else uuid_s)
                   (PDict (or_empty md));
          mgr = mgr\<lparr>tasks := (tasks mgr)(task_id task \<mapsto> task)\<rparr>;
          mgr = (if sessions mgr (session_id task) = None
                 then mgr\<lparr>sessions := (sessions mgr)(session_id task \<mapsto> [])\<rparr> else mgr);
          mgr = mgr\<lparr>sessions := (sessions mgr)(session_id task \<mapsto>
                   (case sessions mgr (session_id task) of None \<Rightarrow> [] | Some l \<Rightarrow> l) @ [task_id task])\<rparr>
      in (task, mgr))"

definition get_task :: "TaskManager \<Rightarrow> string \<Rightarrow> Task option" where
  "get_task mgr tid = tasks mgr tid"

definition get_session_tasks :: "TaskManager \<Rightarrow> string \<Rightarrow> Task list" where
  "get_session_tasks mgr sid =
     (let task_ids = (case sessions mgr sid of None \<Rightarrow> [] | Some l \<Rightarrow> l)
      in List.map_filter (tasks mgr) task_ids)"

definition get_session_context :: "TaskManager \<Rightarrow> string \<Rightarrow> int option \<Rightarrow> A2AMessage_std list" where
  "get_session_context mgr sid max_messages =
     (let all_messages = concat (map history (get_session_tasks mgr sid))
      in case max_messages of
           Some n \<Rightarrow> if n \<noteq> 0 then slice_from all_messages (- n) else all_messages
         | None \<Rightarrow> all_messages)"

text \<open>
  The manager keeps the task object it returns, so a method called on that object changes
  the task the manager holds: \<open>on_task tid f\<close> is the method \<open>f\<close> called on the task stored
  under \<open>tid\<close>.
\<close>

definition on_task :: "string \<Rightarrow> (Task \<Rightarrow> Task) \<Rightarrow> TaskManager \<Rightarrow> TaskManager" where
  "on_task tid f mgr =
     (case tasks mgr tid of
        None \<Rightarrow> mgr
      | Some t \<Rightarrow> mgr\<lparr>tasks := (tasks mgr)(tid \<mapsto> f t)\<rparr>)"

text \<open>
  What a caller does with a manager: it creates a task (the identifiers and the time are
  what the environment gives the call, then come the two arguments), or it calls a method
  of a task the manager gave it, named here by the task's identifier.
\<close>

datatype call =
    Create_task string string string "string option" "pydict option"
  | Add_message string A2AMessage_std
  | Update_status string string TaskState "A2AMessage_std option"
  | Add_artifact string pyval

fun step :: "call \<Rightarrow> TaskManager \<Rightarrow> TaskManager" where
  "step (Create_task uuid_s uuid_t now sid md) mgr = snd (create_task uuid_s uuid_t now sid md mgr)"
| "step (Add_message tid msg) mgr = on_task tid (add_message msg) mgr"
| "step (Update_status tid now st msg) mgr = on_task tid (update_status now st msg) mgr"
| "step (Add_artifact tid artifact) mgr = on_task tid (add_artifact artifact) mgr"

fun run :: "call list \<Rightarrow> TaskManager \<Rightarrow> TaskManager" where
  "run [] mgr = mgr"
| "run (c # cs) mgr = run cs (step c mgr)"

section \<open>Predicates and examples used in the statements\<close>

text \<open>
  The Parts that \<^verbatim>\<open>from_dict\<close> gives back as they were: a text or json Part whose type is one
  of the two strings of its annotation, and a file Part whose type is none of these four,
  passes the test \<^verbatim>\<open>"file" in t or "/" in t\<close>, and whose \<^verbatim>\<open>uri\<close>, \<^verbatim>\<open>data\<close> and \<^verbatim>\<open>filename\<close>
  are each \<^verbatim>\<open>None\<close> or truthy.
\<close>

fun part_roundtrips :: "Part \<Rightarrow> bool" where
  "part_roundtrips (TextPart t x) = (t \<in> set [PStr ''text'', PStr ''text/plain''])"
| "part_roundtrips (JsonPart t j) = (t \<in> set [PStr ''json'', PStr ''application/json''])"
| "part_roundtrips (FilePart t u d f) =
     (t \<notin> set [PStr ''text'', PStr ''text/plain'', PStr ''json'', PStr ''application/json''] \<and>
      (py_contains ''file'' t = Inr True \<or>
       py_contains ''file'' t = Inr False \<and> py_contains ''/'' t = Inr True) \<and>
      (u = PNone \<or> truthy u) \<and> (d = PNone \<or> truthy d) \<and> (f = PNone \<or> truthy f))"

definition example_envelope :: A2AMessage where
  "example_envelope = create_response ''id-2'' ''2025-01-01T00:00:01'' COMPANY_AGENT COORDINATOR
     (PDict (fmap_of_list [(''price'', PInt 273)])) ''id-1''"

definition example_message :: A2AMessage_std where
  "example_message =
     \<lparr>role = PStr ''agent'',
      parts = [TextPart (PStr ''text/plain'') (PStr ''hello''),
               JsonPart (PStr ''json'') (PDict (fmap_of_list [(''ticker'', PStr ''AAPL'')])),
               FilePart (PStr ''image/jpeg'') (PStr ''http://host/logo.jpg'') PNone (PStr ''logo.jpg'')],
      metadata = PDict (fmap_of_list [(''message_type'', PStr ''response'')])\<rparr>"

text \<open>The values of the members of the two enumerations.\<close>

definition AgentRole_values :: "pyval list" where
  "AgentRole_values =
     map (\<lambda>r. PStr (AgentRole_value r)) [COMPANY_AGENT, PERSON_AGENT, COORDINATOR, WEATHER_AGENT]"

definition MessageType_values :: "pyval list" where
  "MessageType_values =
     map (\<lambda>t. PStr (MessageType_value t)) [REQUEST, RESPONSE, NOTIFICATION, ERROR]"

text \<open>
  The three tags of a legacy dictionary are present and are values of members; and an
  exception that reports a tag of the dictionary that is absent (\<^verbatim>\<open>KeyError\<close> with its key)
  or is not the value of a member (\<^verbatim>\<open>ValueError\<close> with the value found).
\<close>

definition tags_recognized :: "pydict \<Rightarrow> bool" where
  "tags_recognized d \<longleftrightarrow>
     (case fmlookup d ''sender'' of None \<Rightarrow> False | Some v \<Rightarrow> v \<in> set AgentRole_values) \<and>
     (case fmlookup d ''receiver'' of None \<Rightarrow> False | Some v \<Rightarrow> v \<in> set AgentRole_values) \<and>
     (case fmlookup d ''message_type'' of None \<Rightarrow> False | Some v \<Rightarrow> v \<in> set MessageType_values)"

definition reports_tag :: "pydict \<Rightarrow> error \<Rightarrow> bool" where
  "reports_tag d e =
     (case e of
        KeyError k \<Rightarrow>
          k \<in> set [''sender'', ''receiver'', ''message_type''] \<and> fmlookup d k = None
      | ValueError v \<Rightarrow>
          fmlookup d ''sender'' = Some v \<and> v \<notin> set AgentRole_values \<or>
          fmlookup d ''receiver'' = Some v \<and> v \<notin> set AgentRole_values \<or>
          fmlookup d ''message_type'' = Some v \<and> v \<notin> set MessageType_values
      | _ \<Rightarrow> False)"

definition example_untyped_dict :: pydict where
  "example_untyped_dict = fmap_of_list
     [(''sender'', PStr ''coordinator''), (''receiver'', PStr ''company_agent''),
      (''content'', PDict fmempty), (''message_id'', PStr ''id-1''),
      (''timestamp'', PStr ''2025-01-01T00:00:00'')]"

definition example_no_role :: pydict where
  "example_no_role = fmap_of_list
     [(''parts'', PList [PDict (fmap_of_list [(''type'', PStr ''text''), (''text'', PStr ''hi'')])])]"

definition example_odd_role :: pydict where
  "example_odd_role = fmap_of_list
     [(''role'', PStr ''robot''),
      (''parts'', PList [PDict (fmap_of_list [(''type'', PStr ''blob''), (''text'', PStr ''hi'')]),
                         PDict (fmap_of_list [(''text'', PStr ''hi'')])])]"

text \<open>The three components of what a call of \<^verbatim>\<open>send_message\<close> gives.\<close>

definition result_of :: "'r \<times> 'b \<times> 'w \<Rightarrow> 'r" where
  "result_of x = fst x"

definition bus_after :: "'r \<times> 'b \<times> 'w \<Rightarrow> 'b" where
  "bus_after x = fst (snd x)"

definition world_after :: "'r \<times> 'b \<times> 'w \<Rightarrow> 'w" where
  "world_after x = snd (snd x)"

text \<open>The response a handler's outcome carries, as the entries it adds to the history.\<close>

fun response_entries :: "raised + 'm option \<Rightarrow> 'm list" where
  "response_entries (Inr (Some response)) = [response]"
| "response_entries _ = []"

text \<open>
  A chain of replies from \<open>current_id\<close>: each entry is the first entry of the history whose
  \<^verbatim>\<open>in_reply_to\<close> is the identifier before it, and no entry of the history replies to the
  last identifier.
\<close>

fun reply_chain :: "'a routing_scheme list \<Rightarrow> pyval \<Rightarrow> 'a routing_scheme list \<Rightarrow> bool" where
  "reply_chain h current_id [] = (find (\<lambda>m. in_reply_to m = current_id) h = None)"
| "reply_chain h current_id (reply # replies) =
     (find (\<lambda>m. in_reply_to m = current_id) h = Some reply \<and>
      reply_chain h (message_id reply) replies)"


text \<open>Example buses: one handler, of the company agent, that counts its calls in the state.\<close>

definition example_request :: A2AMessage where
  "example_request = create_request ''id-1'' ''2025-01-01T00:00:00'' COORDINATOR COMPANY_AGENT
     ''get_stock_price'' (PDict (fmap_of_list [(''ticker'', PStr ''AAPL'')]))"

definition example_stray :: A2AMessage where
  "example_stray = create_notification ''id-9'' ''2025-01-01T00:00:09'' COORDINATOR WEATHER_AGENT
     ''ping'' PNone"

definition example_handler :: "(A2AMessage, nat) handler" where
  "example_handler msg n =
     (if message_type msg = REQUEST
      then (Inr (Some (create_response ''id-2'' ''2025-01-01T00:00:01'' COMPANY_AGENT (sender msg)
                   (PDict (fmap_of_list [(''price'', PInt 273)])) ''id-1'')), Suc n)
      else (Inr None, Suc n))"

definition example_bus :: "(A2AMessage, nat) MessageBus" where
  "example_bus = register_agent COMPANY_AGENT example_handler MessageBus_init"

definition example_agent_request :: AgentMessage where
  "example_agent_request = create_agent_message ''id-1'' ''2025-01-01T00:00:00'' COORDINATOR
     COMPANY_AGENT (create_request_message ''get_stock_price''
        (PDict (fmap_of_list [(''ticker'', PStr ''AAPL'')])) None) PNone"

definition example_agent_stray :: AgentMessage where
  "example_agent_stray = create_agent_message ''id-9'' ''2025-01-01T00:00:09'' COORDINATOR
     WEATHER_AGENT (create_text_message (PStr ''user'') (PStr ''ping'') None) PNone"

definition example_handler_std :: "(AgentMessage, nat) handler" where
  "example_handler_std msg n =
     (Inr (Some (create_agent_message ''id-2'' ''2025-01-01T00:00:01'' COMPANY_AGENT (sender msg)
              (create_response_message (PDict (fmap_of_list [(''price'', PInt 273)])) None)
              (message_id msg))), Suc n)"

definition example_bus_std :: "(AgentMessage, nat) MessageBus_std" where
  "example_bus_std = register_agent_std COMPANY_AGENT example_handler_std (MessageBus_std_init True)"

text \<open>Example buses whose handler raises.\<close>

definition failing_handler :: "(A2AMessage, nat) handler" where
  "failing_handler msg n = (Inl (Exception ''boom''), Suc n)"

definition failing_bus :: "(A2AMessage, nat) MessageBus" where
  "failing_bus = register_agent COMPANY_AGENT failing_handler MessageBus_init"

definition failing_handler_std :: "(AgentMessage, nat) handler" where
  "failing_handler_std msg n = (Inl (Exception ''boom''), Suc n)"

definition failing_bus_std :: "(AgentMessage, nat) MessageBus_std" where
  "failing_bus_std = register_agent_std COMPANY_AGENT failing_handler_std (MessageBus_std_init True)"

text \<open>Example histories: a thread of three messages, and one with a second reply to the first.\<close>

definition msg_A :: routing where
  "msg_A = \<lparr>sender = COORDINATOR, receiver = COMPANY_AGENT, message_id = PStr ''1'',
            timestamp = PStr ''t1'', in_reply_to = PNone\<rparr>"

definition msg_B :: routing where
  "msg_B = \<lparr>sender = COMPANY_AGENT, receiver = COORDINATOR, message_id = PStr ''2'',
            timestamp = PStr ''t2'', in_reply_to = PStr ''1''\<rparr>"

definition msg_C :: routing where
  "msg_C = \<lparr>sender = COORDINATOR, receiver = COMPANY_AGENT, message_id = PStr ''3'',
            timestamp = PStr ''t3'', in_reply_to = PStr ''2''\<rparr>"

definition msg_B' :: routing where
  "msg_B' = \<lparr>sender = PERSON_AGENT, receiver = COORDINATOR, message_id = PStr ''4'',
            timestamp = PStr ''t4'', in_reply_to = PStr ''1''\<rparr>"


definition bus_with :: "routing list \<Rightarrow> (routing, unit) MessageBus" where
  "bus_with h = MessageBus_init\<lparr>message_history := h\<rparr>"

text \<open>
  The tasks a sequence of calls creates, in the order of creation: the identifier of each
  and the session it is created in.
\<close>

fun created :: "call list \<Rightarrow> (string \<times> string) list" where
  "created [] = []"
| "created (Create_task uuid_s uuid_t now sid md # cs) =
     (uuid_t, (case sid of None \<Rightarrow> uuid_s | Some s \<Rightarrow> if s \<noteq> [] then s else uuid_s)) # created cs"
| "created (c # cs) = created cs"

text \<open>The \<open>n\<close> most recent entries of a list, for a number \<open>n\<close> of entries.\<close>

definition most_recent :: "nat \<Rightarrow> 'a list \<Rightarrow> 'a list" where
  "most_recent n xs = drop (length xs - n) xs"

text \<open>Example messages, tasks and calls.\<close>

definition text_message :: "string \<Rightarrow> A2AMessage_std" where
  "text_message s = create_text_message (PStr ''user'') (PStr s) None"

definition example_task :: Task where
  "example_task =
     add_message (text_message ''c'') (add_message (text_message ''b'')
       (add_message (text_message ''a'') (Task_init ''task-1'' ''2025-01-01T00:00:00'' ''session-1''
          (PDict fmempty))))"

definition example_calls :: "call list" where
  "example_calls =
     [Create_task ''uuid-1'' ''task-1'' ''2025-01-01T00:00:00'' None None,
      Create_task ''uuid-2'' ''task-2'' ''2025-01-01T00:00:01'' (Some ''uuid-1'') None,
      Add_message ''task-1'' (text_message ''a''),
      Create_task ''uuid-3'' ''task-3'' ''2025-01-01T00:00:02'' (Some ''other'') None,
      Create_task ''uuid-4'' ''task-4'' ''2025-01-01T00:00:03'' (Some ''uuid-1'') None]"

text \<open>
  What holds of a manager after the calls that created the tasks \<open>cr\<close> (the identifier and the
  session of each, in the order of creation).
\<close>

definition indexed :: "TaskManager \<Rightarrow> (string \<times> string) list \<Rightarrow> bool" where
  "indexed mgr cr \<longleftrightarrow>
     distinct (map fst cr) \<and>
     dom (tasks mgr) = fst ` set cr \<and>
     (\<forall>p \<in> set cr. \<exists>t. tasks mgr (fst p) = Some t \<and> task_id t = fst p \<and> session_id t = snd p) \<and>
     (\<forall>sid. sessions mgr sid =
        (if sid \<in> snd ` set cr then Some (map fst (filter (\<lambda>p. snd p = sid) cr)) else None))"

text \<open>
  An envelope with a text Part whose text is \<^verbatim>\<open>None\<close>, as \<^verbatim>\<open>from_dict\<close> gives for a
  dictionary with \<^verbatim>\<open>"text": None\<close>.
\<close>

definition null_text_dict :: pydict where
  "null_text_dict = fmap_of_list
     [(''role'', PStr ''user''),
      (''parts'', PList [PDict (fmap_of_list [(''type'', PStr ''text''), (''text'', PNone)])])]"

definition null_text_request :: AgentMessage where
  "null_text_request = create_agent_message ''id-7'' ''2025-01-01T00:00:07'' COORDINATOR
     COMPANY_AGENT
     \<lparr>role = PStr ''user'', parts = [TextPart (PStr ''text'') PNone], metadata = PDict fmempty\<rparr>
     PNone"

text \<open>
  The lines with which the bus of \<^verbatim>\<open>a2a_standard_protocol.py\<close> describes an envelope it
  sends: the routing fields, one line for each Part, the metadata when there is some and
  \<^verbatim>\<open>in_reply_to\<close> when it is set.
\<close>

definition logged_description :: "'a AgentMessage_scheme \<Rightarrow> 'a AgentMessage_scheme printed list" where
  "logged_description msg =
     Out_sending msg #
     map (\<lambda>(k, p). Out_part k p)
       (zip [1..<1 + length (parts (message msg))] (parts (message msg))) @
     (if truthy (metadata (message msg)) then [Out_metadata (metadata (message msg))] else []) @
     (if truthy (in_reply_to msg) then [Out_in_reply_to (in_reply_to msg)] else [])"

section \<open>Round trip of the two message formats\<close>

lemma AgentRole_of_value: "AgentRole_of (PStr (AgentRole_value x)) = Inr x"
  by (cases x) (simp_all add: AgentRole_of_def)

lemma MessageType_of_value: "MessageType_of (PStr (MessageType_value x)) = Inr x"
  by (cases x) (simp_all add: MessageType_of_def)

lemma legacy_roundtrip: "A2AMessage_from_dict (A2AMessage_to_dict m) = Inr m"
  by (simp add: A2AMessage_from_dict_def A2AMessage_to_dict_def getitem_def get_default_def
      and_then_def AgentRole_of_value MessageType_of_value)

lemma decode_part_roundtrip:
  "decode_part (PDict (Part_to_dict p)) = Inr (Some p) \<longleftrightarrow> part_roundtrips p"
  by (cases p) (auto simp: get_default_def and_then_def Let_def split: if_splits sum.splits)

lemma decode_parts_grows:
  "decode_parts items acc = Inr r \<Longrightarrow> take (length acc) r = acc \<and> length r \<le> length acc + length items"
proof (induction items arbitrary: acc)
  case Nil
  then show ?case by simp
next
  case (Cons a items)
  show ?case
  proof (cases "decode_part a")
    case (Inl e)
    with Cons.prems show ?thesis by (simp add: and_then_def)
  next
    case (Inr o1)
    show ?thesis
    proof (cases o1)
      case None
      with Inr Cons.prems have "decode_parts items acc = Inr r" by (simp add: and_then_def)
      from Cons.IH[OF this] show ?thesis by simp
    next
      case (Some q)
      with Inr Cons.prems have "decode_parts items (acc @ [q]) = Inr r"
        by (simp add: and_then_def)
      from Cons.IH[OF this] have t: "take (Suc (length acc)) r = acc @ [q]"
        and l: "length r \<le> Suc (length acc) + length items" by simp_all
      from t have "take (length acc) (take (Suc (length acc)) r) = take (length acc) (acc @ [q])"
        by simp
      then have "take (length acc) r = acc" by (simp add: min_def)
      with l show ?thesis by simp
    qed
  qed
qed

lemma decode_parts_roundtrip:
  "decode_parts (map (\<lambda>p. PDict (Part_to_dict p)) ps) acc = Inr (acc @ ps) \<longleftrightarrow>
   list_all part_roundtrips ps"
proof (induction ps arbitrary: acc)
  case Nil
  then show ?case by simp
next
  case (Cons p ps)
  show ?case
  proof (cases "decode_part (PDict (Part_to_dict p))")
    case (Inl e)
    with decode_part_roundtrip[of p] show ?thesis by (simp add: and_then_def)
  next
    case (Inr r)
    show ?thesis
    proof (cases r)
      case None
      have "decode_parts (map (\<lambda>p. PDict (Part_to_dict p)) ps) acc \<noteq> Inr (acc @ p # ps)"
      proof
        assume "decode_parts (map (\<lambda>p. PDict (Part_to_dict p)) ps) acc = Inr (acc @ p # ps)"
        from decode_parts_grows[OF this] show False by simp
      qed
      with Inr None decode_part_roundtrip[of p] show ?thesis by (simp add: and_then_def)
    next
      case (Some q)
      show ?thesis
      proof (cases "q = p")
        case True
        with Inr Some decode_part_roundtrip[of p] Cons.IH[of "acc @ [p]"]
        show ?thesis by (simp add: and_then_def)
      next
        case False
        have "decode_parts (map (\<lambda>p. PDict (Part_to_dict p)) ps) (acc @ [q]) \<noteq> Inr (acc @ p # ps)"
        proof
          assume "decode_parts (map (\<lambda>p. PDict (Part_to_dict p)) ps) (acc @ [q]) = Inr (acc @ p # ps)"
          from decode_parts_grows[OF this] have "take (Suc (length acc)) (acc @ p # ps) = acc @ [q]"
            by simp
          with False show False by simp
        qed
        with Inr Some False decode_part_roundtrip[of p] show ?thesis by (simp add: and_then_def)
      qed
    qed
  qed
qed

lemma std_roundtrip:
  "A2AMessage_std_from_dict (A2AMessage_std_to_dict s) = Inr s \<longleftrightarrow>
   list_all part_roundtrips (parts s)"
proof -
  have "A2AMessage_std_from_dict (A2AMessage_std_to_dict s) =
        and_then (decode_parts (map (\<lambda>p. PDict (Part_to_dict p)) (parts s)) [])
          (\<lambda>ps. Inr \<lparr>role = role s, parts = ps, metadata = metadata s\<rparr>)"
    by (simp add: A2AMessage_std_from_dict_def A2AMessage_std_to_dict_def getitem_def
        get_default_def and_then_def)
  moreover have "and_then (decode_parts (map (\<lambda>p. PDict (Part_to_dict p)) (parts s)) [])
          (\<lambda>ps. Inr \<lparr>role = role s, parts = ps, metadata = metadata s\<rparr>) = Inr s \<longleftrightarrow>
        decode_parts (map (\<lambda>p. PDict (Part_to_dict p)) (parts s)) [] = Inr ([] @ parts s)"
    by (cases "decode_parts (map (\<lambda>p. PDict (Part_to_dict p)) (parts s)) []"; cases s)
       (auto simp: and_then_def)
  ultimately show ?thesis using decode_parts_roundtrip[of "parts s" "[]"] by simp
qed

text \<open>
  Claim C1, as the code has it. A legacy envelope is given back by \<^verbatim>\<open>from_dict\<close> after
  \<^verbatim>\<open>to_dict\<close> whatever its fields are. A standard message is given back exactly when each
  of its Parts satisfies \<open>part_roundtrips\<close>; the messages built by \<^verbatim>\<open>create_text_message\<close>,
  \<^verbatim>\<open>create_json_message\<close>, \<^verbatim>\<open>create_request_message\<close> and \<^verbatim>\<open>create_response_message\<close>
  are among these.
\<close>

theorem roundtrip_to_dict_from_dict:
  "A2AMessage_from_dict (A2AMessage_to_dict m) = Inr m \<and>
   ((A2AMessage_std_from_dict (A2AMessage_std_to_dict s) = Inr s) = list_all part_roundtrips (parts s)) \<and>
   A2AMessage_std_from_dict (A2AMessage_std_to_dict (create_text_message (PStr r) (PStr txt) md))
     = Inr (create_text_message (PStr r) (PStr txt) md) \<and>
   A2AMessage_std_from_dict (A2AMessage_std_to_dict (create_json_message (PStr r) data md))
     = Inr (create_json_message (PStr r) data md) \<and>
   A2AMessage_std_from_dict (A2AMessage_std_to_dict (create_request_message action params md))
     = Inr (create_request_message action params md) \<and>
   A2AMessage_std_from_dict (A2AMessage_std_to_dict (create_response_message data md))
     = Inr (create_response_message data md)"
  by (simp add: legacy_roundtrip std_roundtrip create_text_message_def create_json_message_def
      create_request_message_def create_response_message_def Let_def)

theorem roundtrip_to_dict_from_dict_witness:
  "A2AMessage_from_dict (A2AMessage_to_dict example_envelope) = Inr example_envelope \<and>
   A2AMessage_std_from_dict (A2AMessage_std_to_dict example_message) = Inr example_message"
  using roundtrip_to_dict_from_dict [of example_envelope example_message]
  by (simp add: example_message_def sublist_Cons_right)

text \<open>
  The round trip fails for a file Part whose type is the MIME type of a JSON file (it comes
  back as a json Part without the \<^verbatim>\<open>uri\<close>) and for a file Part with an empty \<^verbatim>\<open>uri\<close> (it
  comes back with \<^verbatim>\<open>uri = None\<close>).
\<close>

theorem roundtrip_counterexample:
  "A2AMessage_std_from_dict (A2AMessage_std_to_dict
     \<lparr>role = PStr ''user'',
      parts = [FilePart (PStr ''application/json'') (PStr ''data.json'') PNone PNone],
      metadata = PDict fmempty\<rparr>)
   = Inr \<lparr>role = PStr ''user'',
          parts = [JsonPart (PStr ''application/json'') PNone],
          metadata = PDict fmempty\<rparr> \<and>
   A2AMessage_std_from_dict (A2AMessage_std_to_dict
     \<lparr>role = PStr ''user'',
      parts = [FilePart (PStr ''file'') (PStr '''') PNone (PStr ''a.bin'')],
      metadata = PDict fmempty\<rparr>)
   = Inr \<lparr>role = PStr ''user'',
          parts = [FilePart (PStr ''file'') PNone PNone (PStr ''a.bin'')],
          metadata = PDict fmempty\<rparr>"
  by (simp add: A2AMessage_std_from_dict_def A2AMessage_std_to_dict_def getitem_def
      get_default_def and_then_def Let_def)

section \<open>What \<^verbatim>\<open>from_dict\<close> does with a tag that is absent or not recognised\<close>

lemma legacy_reports:
  assumes "\<not> tags_recognized d"
  shows "\<exists>e. A2AMessage_from_dict d = Inl e \<and> reports_tag d e"
proof -
  have roles: "\<And>v. v \<notin> set AgentRole_values \<Longrightarrow> AgentRole_of v = Inl (ValueError v)"
    by (simp add: AgentRole_values_def AgentRole_of_def)
  have roles': "\<And>v. v \<in> set AgentRole_values \<Longrightarrow> \<exists>r. AgentRole_of v = Inr r"
    by (auto simp: AgentRole_values_def AgentRole_of_def)
  have types: "\<And>v. v \<notin> set MessageType_values \<Longrightarrow> MessageType_of v = Inl (ValueError v)"
    by (simp add: MessageType_values_def MessageType_of_def)
  show ?thesis
  proof (cases "fmlookup d ''sender''")
    case None
    then show ?thesis
      by (simp add: A2AMessage_from_dict_def getitem_def and_then_def reports_tag_def)
  next
    case s: (Some sv)
    show ?thesis
    proof (cases "sv \<in> set AgentRole_values")
      case False
      with s roles[OF False] show ?thesis
        by (simp add: A2AMessage_from_dict_def getitem_def and_then_def reports_tag_def)
    next
      case sok: True
      from roles'[OF sok] obtain sr where sr: "AgentRole_of sv = Inr sr" by blast
      show ?thesis
      proof (cases "fmlookup d ''receiver''")
        case None
        with s sr show ?thesis
          by (simp add: A2AMessage_from_dict_def getitem_def and_then_def reports_tag_def)
      next
        case r: (Some rv)
        show ?thesis
        proof (cases "rv \<in> set AgentRole_values")
          case False
          with s sr r roles[OF False] show ?thesis
            by (simp add: A2AMessage_from_dict_def getitem_def and_then_def reports_tag_def)
        next
          case rok: True
          from roles'[OF rok] obtain rr where rr: "AgentRole_of rv = Inr rr" by blast
          show ?thesis
          proof (cases "fmlookup d ''message_type''")
            case None
            with s sr r rr show ?thesis
              by (simp add: A2AMessage_from_dict_def getitem_def and_then_def reports_tag_def)
          next
            case t: (Some tv)
            with assms s sok r rok have "tv \<notin> set MessageType_values"
              by (simp add: tags_recognized_def)
            with s sr r rr t types[OF this] show ?thesis
              by (simp add: A2AMessage_from_dict_def getitem_def and_then_def reports_tag_def)
          qed
        qed
      qed
    qed
  qed
qed

lemma std_no_role:
  assumes "fmlookup d ''role'' = None"
  shows "\<exists>e. A2AMessage_std_from_dict d = Inl e"
  using assms
  by (auto simp: A2AMessage_std_from_dict_def getitem_def and_then_def split: sum.splits)

lemma std_no_role_KeyError:
  assumes "fmlookup d ''role'' = None"
    and "py_iter (get_default d ''parts'' (PList [])) = Inr items"
    and "decode_parts items [] = Inr ps"
  shows "A2AMessage_std_from_dict d = Inl (KeyError ''role'')"
  using assms by (simp add: A2AMessage_std_from_dict_def getitem_def and_then_def)

lemma std_any_role:
  assumes "fmlookup d ''role'' = Some r"
    and "py_iter (get_default d ''parts'' (PList [])) = Inr items"
    and "decode_parts items [] = Inr ps"
  shows "A2AMessage_std_from_dict d =
         Inr \<lparr>role = r, parts = ps, metadata = get_default d ''metadata'' (PDict fmempty)\<rparr>"
  using assms by (simp add: A2AMessage_std_from_dict_def getitem_def and_then_def)

text \<open>
  Claim C2, as the code has it. There is no \<^verbatim>\<open>DecodeError\<close>. The legacy \<^verbatim>\<open>from_dict\<close> raises
  whenever \<^verbatim>\<open>sender\<close>, \<^verbatim>\<open>receiver\<close> or \<^verbatim>\<open>message_type\<close> is absent or is not the value of a
  member: a \<^verbatim>\<open>KeyError\<close> with the absent key or a \<^verbatim>\<open>ValueError\<close> with the value found. The
  standard \<^verbatim>\<open>from_dict\<close> raises when \<^verbatim>\<open>role\<close> is absent, a \<^verbatim>\<open>KeyError\<close> with that key when
  the parts were read without an exception; it does not look at the value of a \<^verbatim>\<open>role\<close>
  that is present, and stores it as it is.
\<close>

theorem from_dict_failures:
  "(\<not> tags_recognized d \<longrightarrow> (\<exists>e. A2AMessage_from_dict d = Inl e \<and> reports_tag d e)) \<and>
   (fmlookup sd ''role'' = None \<longrightarrow> (\<exists>e. A2AMessage_std_from_dict sd = Inl e)) \<and>
   (fmlookup sd ''role'' = None \<and> py_iter (get_default sd ''parts'' (PList [])) = Inr items \<and>
      decode_parts items [] = Inr ps \<longrightarrow>
      A2AMessage_std_from_dict sd = Inl (KeyError ''role'')) \<and>
   (fmlookup sd' ''role'' = Some r \<and> py_iter (get_default sd' ''parts'' (PList [])) = Inr items' \<and>
      decode_parts items' [] = Inr ps' \<longrightarrow>
      A2AMessage_std_from_dict sd' =
        Inr \<lparr>role = r, parts = ps', metadata = get_default sd' ''metadata'' (PDict fmempty)\<rparr>)"
  using legacy_reports std_no_role std_no_role_KeyError std_any_role by blast

theorem from_dict_failures_witness:
  "\<not> tags_recognized example_untyped_dict \<and>
   A2AMessage_from_dict example_untyped_dict = Inl (KeyError ''message_type'') \<and>
   fmlookup example_no_role ''role'' = None \<and>
   A2AMessage_std_from_dict example_no_role = Inl (KeyError ''role'') \<and>
   fmlookup example_odd_role ''role'' = Some (PStr ''robot'') \<and>
   A2AMessage_std_from_dict example_odd_role =
     Inr \<lparr>role = PStr ''robot'', parts = [], metadata = PDict fmempty\<rparr>"
  using from_dict_failures [of example_untyped_dict example_no_role
      "[PDict (fmap_of_list [(''type'', PStr ''text''), (''text'', PStr ''hi'')])]"
      "[TextPart (PStr ''text'') (PStr ''hi'')]"
      example_odd_role "PStr ''robot''"
      "[PDict (fmap_of_list [(''type'', PStr ''blob''), (''text'', PStr ''hi'')]),
        PDict (fmap_of_list [(''text'', PStr ''hi'')])]" "[]"]
  by (simp add: example_untyped_dict_def example_no_role_def example_odd_role_def
      tags_recognized_def reports_tag_def get_default_def and_then_def Let_def
      A2AMessage_from_dict_def getitem_def AgentRole_of_def sublist_Cons_right)

text \<open>
  A dictionary with the role \<^verbatim>\<open>robot\<close>, a Part of the unknown type \<^verbatim>\<open>blob\<close> and a Part
  without a type is read without an exception: the role is kept, the two Parts are left out.
\<close>

theorem from_dict_counterexample:
  "A2AMessage_std_from_dict (fmap_of_list
     [(''role'', PStr ''robot''),
      (''parts'', PList [PDict (fmap_of_list [(''type'', PStr ''blob''), (''text'', PStr ''hi'')]),
                         PDict (fmap_of_list [(''text'', PStr ''hi'')])])])
   = Inr \<lparr>role = PStr ''robot'', parts = [], metadata = PDict fmempty\<rparr>"
  by (simp add: A2AMessage_std_from_dict_def getitem_def get_default_def and_then_def Let_def
      sublist_Cons_right)

section \<open>Routing and the history of the bus\<close>

lemma send_message_unregistered:
  assumes "agent_handlers bus (receiver msg) = None"
  shows "send_message bus msg w =
     (Inr None,
      print_line (Out_no_handler (receiver msg)) (append_history msg (print_line (Out_sending msg) bus)),
      w)"
  using assms by (simp add: send_message_def Let_def print_line_def append_history_def)

lemma send_message_registered:
  assumes "agent_handlers bus (receiver msg) = Some h"
  shows "result_of (send_message bus msg w) = fst (h msg w) \<and>
         world_after (send_message bus msg w) = snd (h msg w) \<and>
         message_history (bus_after (send_message bus msg w)) =
           message_history bus @ msg # response_entries (fst (h msg w)) \<and>
         agent_handlers (bus_after (send_message bus msg w)) = agent_handlers bus"
proof -
  obtain r w' where hw: "h msg w = (r, w')" by (cases "h msg w")
  show ?thesis
  proof (cases r)
    case (Inl e)
    with assms hw show ?thesis
      by (simp add: send_message_def Let_def print_line_def append_history_def
          result_of_def bus_after_def world_after_def)
  next
    case (Inr o1)
    with assms hw show ?thesis
      by (cases o1) (simp_all add: send_message_def Let_def print_line_def append_history_def
          result_of_def bus_after_def world_after_def)
  qed
qed

lemma send_message_history:
  "message_history (bus_after (send_message bus msg w)) =
     message_history bus @ msg # response_entries (result_of (send_message bus msg w))"
proof (cases "agent_handlers bus (receiver msg)")
  case None
  from send_message_unregistered[OF this] show ?thesis
    by (simp add: print_line_def append_history_def result_of_def bus_after_def)
next
  case (Some h)
  from send_message_registered[OF this] show ?thesis by simp
qed

lemma length_response_entries: "Suc (length (response_entries r)) = entries_of r"
  by (cases r rule: entries_of.cases) simp_all

lemma send_messages_length:
  "length (message_history (bus_after (send_messages bus msgs w))) =
     length (message_history bus) + sum_list (map entries_of (result_of (send_messages bus msgs w)))"
proof (induction msgs arbitrary: bus w)
  case Nil
  then show ?case by (simp add: result_of_def bus_after_def)
next
  case (Cons msg msgs)
  obtain r b w' where s: "send_message bus msg w = (r, b, w')" by (cases "send_message bus msg w")
  obtain rs b' w'' where ss: "send_messages b msgs w' = (rs, b', w'')"
    by (cases "send_messages b msgs w'")
  from send_message_history[of bus msg w] s
  have "length (message_history b) = length (message_history bus) + entries_of r"
    by (simp add: result_of_def bus_after_def length_response_entries[symmetric])
  with Cons.IH[of b w'] s ss show ?case
    by (simp add: result_of_def bus_after_def)
qed

lemma log_parts_formats:
  "list_all part_formats ps \<Longrightarrow>
   log_parts i ps bus =
     (None, if verbose bus
            then bus\<lparr>console := console bus @
                   map (\<lambda>(k, p). Out_part k p) (zip [i..<i + length ps] ps)\<rparr>
            else bus)"
proof (induction ps arbitrary: i bus)
  case Nil
  then show ?case by simp
next
  case (Cons p ps)
  from Cons.prems have p: "part_formats p" and ps: "list_all part_formats ps" by simp_all
  have u: "[i..<i + length (p # ps)] = i # [Suc i..<Suc i + length ps]"
    by (subst upt_rec) simp
  show ?case
  proof (cases "verbose bus")
    case True
    with p Cons.IH[OF ps, of "Suc i" "log_line (Out_part i p) bus"] show ?thesis
      unfolding u by (simp add: log_line_def print_line_def)
  next
    case False
    with p Cons.IH[OF ps, of "Suc i" "log_line (Out_part i p) bus"] show ?thesis
      by (simp add: log_line_def)
  qed
qed

lemma log_parts_frame:
  "message_history (snd (log_parts i ps bus)) = message_history bus \<and>
   agent_handlers (snd (log_parts i ps bus)) = agent_handlers bus \<and>
   verbose (snd (log_parts i ps bus)) = verbose bus"
  by (induction ps arbitrary: i bus) (simp_all add: log_line_def print_line_def)

lemma log_parts_raises:
  "\<not> list_all part_formats ps \<Longrightarrow> fst (log_parts i ps bus) = Some Log_format_error"
  by (induction ps arbitrary: i bus) simp_all

lemma send_message_std_unregistered:
  assumes "list_all part_formats (parts (message msg))"
    and "agent_handlers bus (receiver msg) = None"
  shows "result_of (send_message_std bus msg w) = Inr None \<and>
         world_after (send_message_std bus msg w) = w \<and>
         message_history (bus_after (send_message_std bus msg w)) = message_history bus @ [msg] \<and>
         agent_handlers (bus_after (send_message_std bus msg w)) = agent_handlers bus"
  using assms
  by (simp add: send_message_std_def Let_def log_parts_formats log_line_def print_line_def
      append_history_def result_of_def bus_after_def world_after_def)

lemma send_message_std_registered:
  assumes "list_all part_formats (parts (message msg))"
    and "agent_handlers bus (receiver msg) = Some h"
  shows "result_of (send_message_std bus msg w) = fst (h msg w) \<and>
         world_after (send_message_std bus msg w) = snd (h msg w) \<and>
         message_history (bus_after (send_message_std bus msg w)) =
           message_history bus @ msg # response_entries (fst (h msg w)) \<and>
         agent_handlers (bus_after (send_message_std bus msg w)) = agent_handlers bus"
proof -
  obtain r w' where hw: "h msg w = (r, w')" by (cases "h msg w")
  show ?thesis
  proof (cases r)
    case (Inl e)
    with assms hw show ?thesis
      by (simp add: send_message_std_def Let_def log_parts_formats log_line_def print_line_def
          append_history_def result_of_def bus_after_def world_after_def)
  next
    case (Inr o1)
    with assms hw show ?thesis
      by (cases o1) (simp_all add: send_message_std_def Let_def log_parts_formats log_line_def
          print_line_def append_history_def result_of_def bus_after_def world_after_def)
  qed
qed

lemma send_message_std_history:
  assumes "list_all part_formats (parts (message msg))"
  shows "message_history (bus_after (send_message_std bus msg w)) =
     message_history bus @ msg # response_entries (result_of (send_message_std bus msg w))"
proof (cases "agent_handlers bus (receiver msg)")
  case None
  from send_message_std_unregistered[OF assms this] show ?thesis by simp
next
  case (Some h)
  from send_message_std_registered[OF assms this] show ?thesis by simp
qed

lemma send_messages_std_length:
  assumes "list_all (\<lambda>m. list_all part_formats (parts (message m))) msgs"
  shows "length (message_history (bus_after (send_messages_std bus msgs w))) =
     length (message_history bus) +
     sum_list (map entries_of (result_of (send_messages_std bus msgs w)))"
  using assms
proof (induction msgs arbitrary: bus w)
  case Nil
  then show ?case by (simp add: result_of_def bus_after_def)
next
  case (Cons msg msgs)
  from Cons.prems have f: "list_all part_formats (parts (message msg))"
    and fs: "list_all (\<lambda>m. list_all part_formats (parts (message m))) msgs" by simp_all
  obtain r b w' where s: "send_message_std bus msg w = (r, b, w')"
    by (cases "send_message_std bus msg w")
  obtain rs b' w'' where ss: "send_messages_std b msgs w' = (rs, b', w'')"
    by (cases "send_messages_std b msgs w'")
  from send_message_std_history[OF f, of bus w] s
  have "length (message_history b) = length (message_history bus) + entries_of r"
    by (simp add: result_of_def bus_after_def length_response_entries[symmetric])
  with Cons.IH[OF fs, of b w'] s ss show ?case
    by (simp add: result_of_def bus_after_def)
qed

lemma send_message_std_unformatted:
  assumes "\<not> list_all part_formats (parts (message msg))"
  shows "result_of (send_message_std bus msg w) = Inl Log_format_error \<and>
         world_after (send_message_std bus msg w) = w \<and>
         message_history (bus_after (send_message_std bus msg w)) = message_history bus"
proof -
  obtain e b where lp: "log_parts 1 (parts (message msg)) (log_line (Out_sending msg) bus) = (e, b)"
    by (cases "log_parts 1 (parts (message msg)) (log_line (Out_sending msg) bus)")
  from log_parts_raises[OF assms, of 1 "log_line (Out_sending msg) bus"] lp
  have e: "e = Some Log_format_error" by simp
  from log_parts_frame[of 1 "parts (message msg)" "log_line (Out_sending msg) bus"] lp
  have "message_history b = message_history bus" by (simp add: log_line_def print_line_def)
  with lp e show ?thesis
    by (simp add: send_message_std_def Let_def result_of_def bus_after_def world_after_def)
qed

text \<open>
  Claim C3, as the code has it, for the bus of \<^verbatim>\<open>a2a_protocol.py\<close> and for the bus of
  \<^verbatim>\<open>a2a_standard_protocol.py\<close>; for the second, the envelopes are those whose log lines can
  be formatted (the text of each text Part is a string, or a list or a dictionary of at
  most 50 entries). Sent to a receiver without a handler, an envelope is added to the
  history, nothing else is, no handler runs (the state of the handlers is as before) and
  the call returns \<^verbatim>\<open>None\<close> without raising. Sent to a receiver with a handler, the call
  gives what one call of that handler gives and leaves the state one call of that handler
  leaves; the history gets the request and, when the handler returned a response, the
  response after it. After a sequence of calls the history has grown by two entries for
  each call that returned a response and by one entry for each other call.
\<close>

theorem send_message_postcondition:
  "(agent_handlers bus (receiver msg) = None \<longrightarrow>
      result_of (send_message bus msg w) = Inr None \<and>
      world_after (send_message bus msg w) = w \<and>
      message_history (bus_after (send_message bus msg w)) = message_history bus @ [msg]) \<and>
   (agent_handlers bus (receiver msg') = Some h \<longrightarrow>
      result_of (send_message bus msg' w) = fst (h msg' w) \<and>
      world_after (send_message bus msg' w) = snd (h msg' w) \<and>
      message_history (bus_after (send_message bus msg' w)) =
        message_history bus @ msg' # response_entries (fst (h msg' w))) \<and>
   length (message_history (bus_after (send_messages bus msgs w))) =
     length (message_history bus) + sum_list (map entries_of (result_of (send_messages bus msgs w))) \<and>
   (list_all part_formats (parts (message smsg)) \<and>
    agent_handlers sbus (receiver smsg) = None \<longrightarrow>
      result_of (send_message_std sbus smsg w) = Inr None \<and>
      world_after (send_message_std sbus smsg w) = w \<and>
      message_history (bus_after (send_message_std sbus smsg w)) = message_history sbus @ [smsg]) \<and>
   (list_all part_formats (parts (message smsg')) \<and>
    agent_handlers sbus (receiver smsg') = Some sh \<longrightarrow>
      result_of (send_message_std sbus smsg' w) = fst (sh smsg' w) \<and>
      world_after (send_message_std sbus smsg' w) = snd (sh smsg' w) \<and>
      message_history (bus_after (send_message_std sbus smsg' w)) =
        message_history sbus @ smsg' # response_entries (fst (sh smsg' w))) \<and>
   (list_all (\<lambda>m. list_all part_formats (parts (message m))) smsgs \<longrightarrow>
      length (message_history (bus_after (send_messages_std sbus smsgs w))) =
        length (message_history sbus) +
        sum_list (map entries_of (result_of (send_messages_std sbus smsgs w))))"
proof (intro conjI impI)
  assume "agent_handlers bus (receiver msg) = None"
  then show "result_of (send_message bus msg w) = Inr None"
    and "world_after (send_message bus msg w) = w"
    and "message_history (bus_after (send_message bus msg w)) = message_history bus @ [msg]"
    by (simp_all add: send_message_unregistered print_line_def append_history_def
        result_of_def bus_after_def world_after_def)
next
  assume a: "agent_handlers bus (receiver msg') = Some h"
  from send_message_registered[OF a, of w]
  show "result_of (send_message bus msg' w) = fst (h msg' w)"
    and "world_after (send_message bus msg' w) = snd (h msg' w)"
    and "message_history (bus_after (send_message bus msg' w)) =
        message_history bus @ msg' # response_entries (fst (h msg' w))"
    by simp_all
next
  show "length (message_history (bus_after (send_messages bus msgs w))) =
     length (message_history bus) + sum_list (map entries_of (result_of (send_messages bus msgs w)))"
    by (rule send_messages_length)
next
  assume a: "list_all part_formats (parts (message smsg)) \<and>
    agent_handlers sbus (receiver smsg) = None"
  from send_message_std_unregistered[of smsg sbus w] a
  show "result_of (send_message_std sbus smsg w) = Inr None"
    and "world_after (send_message_std sbus smsg w) = w"
    and "message_history (bus_after (send_message_std sbus smsg w)) = message_history sbus @ [smsg]"
    by simp_all
next
  assume a: "list_all part_formats (parts (message smsg')) \<and>
    agent_handlers sbus (receiver smsg') = Some sh"
  from send_message_std_registered[of smsg' sbus sh w] a
  show "result_of (send_message_std sbus smsg' w) = fst (sh smsg' w)"
    and "world_after (send_message_std sbus smsg' w) = snd (sh smsg' w)"
    and "message_history (bus_after (send_message_std sbus smsg' w)) =
        message_history sbus @ smsg' # response_entries (fst (sh smsg' w))"
    by simp_all
next
  assume "list_all (\<lambda>m. list_all part_formats (parts (message m))) smsgs"
  then show "length (message_history (bus_after (send_messages_std sbus smsgs w))) =
        length (message_history sbus) +
        sum_list (map entries_of (result_of (send_messages_std sbus smsgs w)))"
    by (rule send_messages_std_length)
qed

lemma example_bus_handlers:
  "agent_handlers example_bus WEATHER_AGENT = None"
  "agent_handlers example_bus COMPANY_AGENT = Some example_handler"
  "message_history example_bus = []"
  by (simp_all add: example_bus_def register_agent_def MessageBus_init_def print_line_def)

lemma example_bus_std_handlers:
  "agent_handlers example_bus_std WEATHER_AGENT = None"
  "agent_handlers example_bus_std COMPANY_AGENT = Some example_handler_std"
  "message_history example_bus_std = []"
  by (simp_all add: example_bus_std_def register_agent_std_def MessageBus_std_init_def
      print_line_def log_line_def)

lemma example_receivers:
  "receiver example_stray = WEATHER_AGENT" "receiver example_request = COMPANY_AGENT"
  "receiver example_agent_stray = WEATHER_AGENT" "receiver example_agent_request = COMPANY_AGENT"
  by (simp_all add: example_stray_def example_request_def example_agent_stray_def
      example_agent_request_def create_notification_def create_request_def create_message_def
      create_agent_message_def)

lemma example_formats:
  "list_all part_formats (parts (message example_agent_stray))"
  "list_all part_formats (parts (message example_agent_request))"
  by (simp_all add: example_agent_stray_def example_agent_request_def create_agent_message_def
      create_text_message_def create_request_message_def Let_def)

theorem send_message_postcondition_witness:
  "agent_handlers example_bus (receiver example_stray) = None \<and>
   result_of (send_message example_bus example_stray 0) = Inr None \<and>
   world_after (send_message example_bus example_stray 0) = 0 \<and>
   message_history (bus_after (send_message example_bus example_stray 0)) = [example_stray] \<and>
   agent_handlers example_bus (receiver example_request) = Some example_handler \<and>
   world_after (send_message example_bus example_request 0) = 1 \<and>
   length (message_history (bus_after (send_message example_bus example_request 0))) = 2 \<and>
   length (message_history (bus_after
      (send_messages example_bus [example_request, example_stray, example_request] 0))) = 5 \<and>
   list_all part_formats (parts (message example_agent_stray)) \<and>
   agent_handlers example_bus_std (receiver example_agent_stray) = None \<and>
   result_of (send_message_std example_bus_std example_agent_stray 0) = Inr None \<and>
   message_history (bus_after (send_message_std example_bus_std example_agent_stray 0)) =
     [example_agent_stray] \<and>
   list_all part_formats (parts (message example_agent_request)) \<and>
   agent_handlers example_bus_std (receiver example_agent_request) = Some example_handler_std \<and>
   world_after (send_message_std example_bus_std example_agent_request 0) = 1 \<and>
   length (message_history (bus_after (send_message_std example_bus_std example_agent_request 0))) = 2 \<and>
   list_all (\<lambda>m. list_all part_formats (parts (message m)))
     [example_agent_request, example_agent_stray, example_agent_request] \<and>
   length (message_history (bus_after (send_messages_std example_bus_std
      [example_agent_request, example_agent_stray, example_agent_request] 0))) =
     sum_list (map entries_of (result_of (send_messages_std example_bus_std
      [example_agent_request, example_agent_stray, example_agent_request] 0)))"
proof -
  note t = send_message_postcondition [of example_bus example_stray 0 example_request
      example_handler "[example_request, example_stray, example_request]"
      example_agent_stray example_bus_std example_agent_request example_handler_std
      "[example_agent_request, example_agent_stray, example_agent_request]"]
  have l: "agent_handlers example_bus (receiver example_stray) = None"
    "agent_handlers example_bus (receiver example_request) = Some example_handler"
    "agent_handlers example_bus_std (receiver example_agent_stray) = None"
    "agent_handlers example_bus_std (receiver example_agent_request) = Some example_handler_std"
    by (simp_all add: example_bus_handlers example_bus_std_handlers example_receivers)
  have fs: "list_all (\<lambda>m. list_all part_formats (parts (message m)))
     [example_agent_request, example_agent_stray, example_agent_request]"
    by (simp add: example_formats)
  from t l(1) have 1: "result_of (send_message example_bus example_stray 0) = Inr None"
    "world_after (send_message example_bus example_stray 0) = 0"
    "message_history (bus_after (send_message example_bus example_stray 0)) = [example_stray]"
    by (simp_all add: example_bus_handlers)
  from t l(2) have 2: "world_after (send_message example_bus example_request 0) = 1"
    "length (message_history (bus_after (send_message example_bus example_request 0))) = 2"
    by (simp_all add: example_bus_handlers example_handler_def example_request_def
        create_request_def create_message_def)
  from t have "length (message_history (bus_after
      (send_messages example_bus [example_request, example_stray, example_request] 0))) =
      sum_list (map entries_of (result_of
        (send_messages example_bus [example_request, example_stray, example_request] 0)))"
    by (simp add: example_bus_handlers)
  also have "\<dots> = 5"
    by (simp add: example_bus_handlers example_receivers example_handler_def
        example_request_def example_stray_def create_request_def create_notification_def
        create_message_def send_message_def Let_def print_line_def append_history_def
        result_of_def register_agent_def MessageBus_init_def example_bus_def)
  finally have 3: "length (message_history (bus_after
      (send_messages example_bus [example_request, example_stray, example_request] 0))) = 5" .
  from t l(3) example_formats(1)
  have 4: "result_of (send_message_std example_bus_std example_agent_stray 0) = Inr None"
    "message_history (bus_after (send_message_std example_bus_std example_agent_stray 0)) =
       [example_agent_stray]"
    by (simp_all add: example_bus_std_handlers)
  from t l(4) example_formats(2)
  have 5: "world_after (send_message_std example_bus_std example_agent_request 0) = 1"
    "length (message_history (bus_after (send_message_std example_bus_std example_agent_request 0))) = 2"
    by (simp_all add: example_bus_std_handlers example_handler_std_def)
  from t fs have 6: "length (message_history (bus_after (send_messages_std example_bus_std
      [example_agent_request, example_agent_stray, example_agent_request] 0))) =
     sum_list (map entries_of (result_of (send_messages_std example_bus_std
      [example_agent_request, example_agent_stray, example_agent_request] 0)))"
    by (simp add: example_bus_std_handlers)
  from l 1 2 3 example_formats 4 5 fs 6 show ?thesis by blast
qed

text \<open>
  An envelope with a text Part whose text is \<^verbatim>\<open>None\<close> (what \<^verbatim>\<open>from_dict\<close> makes of
  \<^verbatim>\<open>"text": None\<close>): the bus of \<^verbatim>\<open>a2a_standard_protocol.py\<close> raises while it formats the log
  line of the Part. Nothing is added to the history, and the handler registered for the
  receiver is not called.
\<close>

theorem send_message_counterexample:
  "A2AMessage_std_from_dict null_text_dict = Inr (message null_text_request) \<and>
   agent_handlers example_bus_std (receiver null_text_request) = Some example_handler_std \<and>
   result_of (send_message_std example_bus_std null_text_request 0) = Inl Log_format_error \<and>
   world_after (send_message_std example_bus_std null_text_request 0) = 0 \<and>
   message_history (bus_after (send_message_std example_bus_std null_text_request 0)) = [] \<and>
   agent_handlers example_bus_std (receiver (null_text_request\<lparr>receiver := WEATHER_AGENT\<rparr>)) = None \<and>
   result_of (send_message_std example_bus_std (null_text_request\<lparr>receiver := WEATHER_AGENT\<rparr>) 0)
     = Inl Log_format_error \<and>
   message_history (bus_after
     (send_message_std example_bus_std (null_text_request\<lparr>receiver := WEATHER_AGENT\<rparr>) 0)) = []"
proof -
  have d: "A2AMessage_std_from_dict null_text_dict = Inr (message null_text_request)"
    by (simp add: null_text_dict_def null_text_request_def create_agent_message_def
        A2AMessage_std_from_dict_def getitem_def get_default_def and_then_def Let_def)
  have n: "\<not> list_all part_formats (parts (message null_text_request))"
    "\<not> list_all part_formats (parts (message (null_text_request\<lparr>receiver := WEATHER_AGENT\<rparr>)))"
    by (simp_all add: null_text_request_def create_agent_message_def)
  have r: "receiver null_text_request = COMPANY_AGENT"
    by (simp add: null_text_request_def create_agent_message_def)
  from d r send_message_std_unformatted[OF n(1), of example_bus_std 0]
    send_message_std_unformatted[OF n(2), of example_bus_std 0]
  show ?thesis by (simp add: example_bus_std_handlers)
qed

section \<open>Exceptions of a handler\<close>

lemma send_message_raises:
  assumes "agent_handlers bus (receiver msg) = Some h" and "fst (h msg w) = Inl e"
  shows "result_of (send_message bus msg w) = Inl e \<and>
         message_history (bus_after (send_message bus msg w)) = message_history bus @ [msg] \<and>
         console (bus_after (send_message bus msg w)) = console bus @ [Out_sending msg]"
proof -
  obtain r w' where hw: "h msg w = (r, w')" by (cases "h msg w")
  with assms show ?thesis
    by (simp add: send_message_def Let_def print_line_def append_history_def
        result_of_def bus_after_def)
qed

lemma send_message_std_raises:
  assumes "list_all part_formats (parts (message msg))"
    and "agent_handlers bus (receiver msg) = Some h" and "fst (h msg w) = Inl e"
  shows "result_of (send_message_std bus msg w) = Inl e \<and>
         message_history (bus_after (send_message_std bus msg w)) = message_history bus @ [msg] \<and>
         console (bus_after (send_message_std bus msg w)) =
           (if verbose bus
            then console bus @ logged_description msg @
                 [Out_added (Suc (length (message_history bus))), Out_routing (receiver msg)] @
                 (if derives_from_Exception e then [Out_handler_error e] else [])
            else console bus)"
proof -
  obtain r w' where hw: "h msg w = (r, w')" by (cases "h msg w")
  with assms show ?thesis
    by (simp add: send_message_std_def Let_def log_parts_formats log_line_def print_line_def
        append_history_def result_of_def bus_after_def logged_description_def)
qed

text \<open>
  Claim C9, as the code has it. When the handler of the receiver raises, both buses let the
  same exception leave \<^verbatim>\<open>send_message\<close> (the call returns neither an envelope nor \<^verbatim>\<open>None\<close>),
  and the history has the request and no response for the call; for the bus of
  \<^verbatim>\<open>a2a_standard_protocol.py\<close> the envelopes are those whose log lines can be formatted (the
  text of each text Part is a string, or a list or a dictionary of at most 50 entries).
  That bus logs the error, after the lines that describe the envelope, before it raises
  it again when the bus is verbose and the exception derives from \<^verbatim>\<open>Exception\<close>, and prints
  nothing when it is not verbose. (What the bus of \<^verbatim>\<open>a2a_protocol.py\<close> prints is in the
  counterexample below.)
\<close>

theorem handler_exception_propagates:
  "(agent_handlers bus (receiver msg) = Some h \<and> fst (h msg w) = Inl e \<longrightarrow>
      result_of (send_message bus msg w) = Inl e \<and>
      message_history (bus_after (send_message bus msg w)) = message_history bus @ [msg]) \<and>
   (list_all part_formats (parts (message smsg)) \<and>
    agent_handlers sbus (receiver smsg) = Some sh \<and> fst (sh smsg w) = Inl e \<longrightarrow>
      result_of (send_message_std sbus smsg w) = Inl e \<and>
      message_history (bus_after (send_message_std sbus smsg w)) = message_history sbus @ [smsg] \<and>
      console (bus_after (send_message_std sbus smsg w)) =
        (if verbose sbus
         then console sbus @ logged_description smsg @
              [Out_added (Suc (length (message_history sbus))), Out_routing (receiver smsg)] @
              (if derives_from_Exception e then [Out_handler_error e] else [])
         else console sbus))"
proof (intro conjI impI)
  assume a: "agent_handlers bus (receiver msg) = Some h \<and> fst (h msg w) = Inl e"
  from send_message_raises[of bus msg h w e] a
  show "result_of (send_message bus msg w) = Inl e"
    and "message_history (bus_after (send_message bus msg w)) = message_history bus @ [msg]"
    by simp_all
next
  assume a: "list_all part_formats (parts (message smsg)) \<and>
    agent_handlers sbus (receiver smsg) = Some sh \<and> fst (sh smsg w) = Inl e"
  from send_message_std_raises[of smsg sbus sh w e] a
  show "result_of (send_message_std sbus smsg w) = Inl e"
    and "message_history (bus_after (send_message_std sbus smsg w)) = message_history sbus @ [smsg]"
    and "console (bus_after (send_message_std sbus smsg w)) =
        (if verbose sbus
         then console sbus @ logged_description smsg @
              [Out_added (Suc (length (message_history sbus))), Out_routing (receiver smsg)] @
              (if derives_from_Exception e then [Out_handler_error e] else [])
         else console sbus)"
    by simp_all
qed

lemma failing_bus_facts:
  "agent_handlers failing_bus COMPANY_AGENT = Some failing_handler"
  "message_history failing_bus = []"
  "console failing_bus = [Out_registered COMPANY_AGENT]"
  by (simp_all add: failing_bus_def register_agent_def MessageBus_init_def print_line_def)

lemma failing_bus_std_facts:
  "agent_handlers failing_bus_std COMPANY_AGENT = Some failing_handler_std"
  "message_history failing_bus_std = []"
  "console failing_bus_std = [Out_initialized, Out_registered COMPANY_AGENT]"
  "verbose failing_bus_std"
  by (simp_all add: failing_bus_std_def register_agent_std_def MessageBus_std_init_def
      print_line_def log_line_def)

lemma example_receivers2:
  "receiver example_request = COMPANY_AGENT" "receiver example_agent_request = COMPANY_AGENT"
  by (simp_all add: example_request_def example_agent_request_def create_request_def
      create_message_def create_agent_message_def)

lemma example_description:
  "logged_description example_agent_request =
     [Out_sending example_agent_request,
      Out_part 1 (TextPart (PStr ''text'') (PStr ''Request: get_stock_price'')),
      Out_part 2 (JsonPart (PStr ''json'')
        (PDict (fmap_of_list [(''action'', PStr ''get_stock_price''),
                              (''params'', PDict (fmap_of_list [(''ticker'', PStr ''AAPL'')]))]))),
      Out_metadata (PDict (fmupd ''message_type'' (PStr ''request'') fmempty))]"
proof -
  have m: "fmupd ''message_type'' (PStr ''request'') fmempty \<noteq> fmempty"
  proof
    assume "fmupd ''message_type'' (PStr ''request'') fmempty = fmempty"
    then have "fmlookup (fmupd ''message_type'' (PStr ''request'') fmempty) ''message_type'' =
               fmlookup fmempty ''message_type''" by simp
    then show False by simp
  qed
  have u: "[1..<3] = [1, 2::nat]" by (simp add: upt_rec)
  show ?thesis
    by (simp add: logged_description_def example_agent_request_def create_agent_message_def
        create_request_message_def Let_def or_empty_def m u)
qed

theorem handler_exception_propagates_witness:
  "agent_handlers failing_bus (receiver example_request) = Some failing_handler \<and>
   fst (failing_handler example_request 0) = Inl (Exception ''boom'') \<and>
   result_of (send_message failing_bus example_request 0) = Inl (Exception ''boom'') \<and>
   message_history (bus_after (send_message failing_bus example_request 0)) = [example_request] \<and>
   list_all part_formats (parts (message example_agent_request)) \<and>
   agent_handlers failing_bus_std (receiver example_agent_request) = Some failing_handler_std \<and>
   fst (failing_handler_std example_agent_request 0) = Inl (Exception ''boom'') \<and>
   result_of (send_message_std failing_bus_std example_agent_request 0) = Inl (Exception ''boom'') \<and>
   message_history (bus_after (send_message_std failing_bus_std example_agent_request 0)) =
     [example_agent_request] \<and>
   console (bus_after (send_message_std failing_bus_std example_agent_request 0)) =
     [Out_initialized, Out_registered COMPANY_AGENT, Out_sending example_agent_request,
      Out_part 1 (TextPart (PStr ''text'') (PStr ''Request: get_stock_price'')),
      Out_part 2 (JsonPart (PStr ''json'')
        (PDict (fmap_of_list [(''action'', PStr ''get_stock_price''),
                              (''params'', PDict (fmap_of_list [(''ticker'', PStr ''AAPL'')]))]))),
      Out_metadata (PDict (fmupd ''message_type'' (PStr ''request'') fmempty)),
      Out_added 1, Out_routing COMPANY_AGENT, Out_handler_error (Exception ''boom'')]"
  using handler_exception_propagates [of failing_bus example_request failing_handler 0
      "Exception ''boom''" example_agent_request failing_bus_std failing_handler_std]
  by (simp add: failing_bus_facts failing_bus_std_facts example_receivers2 example_formats
      failing_handler_def failing_handler_std_def example_description)

text \<open>
  The bus of \<^verbatim>\<open>a2a_protocol.py\<close> has no \<^verbatim>\<open>try\<close>: when the handler raises, the only line the
  call has printed is the one about the message sent, and nothing about the error. And
  the bus of \<^verbatim>\<open>a2a_standard_protocol.py\<close>, given an envelope with a text Part whose text is
  \<^verbatim>\<open>None\<close>, raises the exception of formatting the log line, not the one of the handler, and
  adds nothing to the history.
\<close>

theorem handler_exception_counterexample:
  "result_of (send_message failing_bus example_request 0) = Inl (Exception ''boom'') \<and>
   console failing_bus = [Out_registered COMPANY_AGENT] \<and>
   console (bus_after (send_message failing_bus example_request 0)) =
     [Out_registered COMPANY_AGENT, Out_sending example_request] \<and>
   agent_handlers failing_bus_std (receiver null_text_request) = Some failing_handler_std \<and>
   fst (failing_handler_std null_text_request 0) = Inl (Exception ''boom'') \<and>
   result_of (send_message_std failing_bus_std null_text_request 0) = Inl Log_format_error \<and>
   message_history (bus_after (send_message_std failing_bus_std null_text_request 0)) = []"
proof -
  have n: "\<not> list_all part_formats (parts (message null_text_request))"
    by (simp add: null_text_request_def create_agent_message_def)
  have r: "receiver null_text_request = COMPANY_AGENT"
    by (simp add: null_text_request_def create_agent_message_def)
  have l: "result_of (send_message failing_bus example_request 0) = Inl (Exception ''boom'') \<and>
   console failing_bus = [Out_registered COMPANY_AGENT] \<and>
   console (bus_after (send_message failing_bus example_request 0)) =
     [Out_registered COMPANY_AGENT, Out_sending example_request]"
    by (simp add: send_message_def Let_def print_line_def append_history_def result_of_def
        bus_after_def failing_bus_facts example_receivers2 failing_handler_def)
  from l r send_message_std_unformatted[OF n, of failing_bus_std 0]
  show ?thesis by (simp add: failing_bus_std_facts failing_handler_std_def)
qed

section \<open>Conversation threads\<close>

lemma find_replies_chain:
  "reply_chain h cur replies \<Longrightarrow> find_replies h cur acc = Some (acc @ replies)"
proof (induction replies arbitrary: cur acc)
  case Nil
  then show ?case by (subst find_replies.simps) simp
next
  case (Cons r rs)
  from Cons.prems have f: "find (\<lambda>m. in_reply_to m = cur) h = Some r"
    and c: "reply_chain h (message_id r) rs" by simp_all
  from Cons.IH[OF c, of "acc @ [r]"] f show ?case
    by (subst find_replies.simps) simp
qed

lemma find_replies_result:
  assumes "find_replies h cur acc = Some conv"
  shows "\<exists>replies. conv = acc @ replies \<and> reply_chain h cur replies"
  using assms
proof (induction rule: find_replies.raw_induct[rotated 1, consumes 1])
  case (1 f h cur acc conv)
  show ?case
  proof (cases "find (\<lambda>m. in_reply_to m = cur) h")
    case None
    with 1(2) show ?thesis by simp
  next
    case (Some r)
    with 1(2) have "f h (message_id r) (acc @ [r]) = Some conv" by simp
    from 1(1)[OF this] obtain rs where "conv = (acc @ [r]) @ rs" "reply_chain h (message_id r) rs"
      by blast
    with Some show ?thesis by (intro exI[of _ "r # rs"]) simp
  qed
qed

lemma get_conversation_result:
  "get_conversation bus mid = Some conv \<longleftrightarrow>
     (case conv of
        [] \<Rightarrow> find (\<lambda>m. message_id m = mid) (message_history bus) = None
      | initial # replies \<Rightarrow>
          find (\<lambda>m. message_id m = mid) (message_history bus) = Some initial \<and>
          reply_chain (message_history bus) mid replies)"
proof (cases "find (\<lambda>m. message_id m = mid) (message_history bus)")
  case None
  then show ?thesis by (cases conv) (auto simp: get_conversation_def)
next
  case (Some initial)
  show ?thesis
  proof
    assume "get_conversation bus mid = Some conv"
    with Some have "find_replies (message_history bus) mid [initial] = Some conv"
      by (simp add: get_conversation_def)
    from find_replies_result[OF this] Some show
      "case conv of [] \<Rightarrow> find (\<lambda>m. message_id m = mid) (message_history bus) = None
       | initial # replies \<Rightarrow>
          find (\<lambda>m. message_id m = mid) (message_history bus) = Some initial \<and>
          reply_chain (message_history bus) mid replies"
      by auto
  next
    assume a: "case conv of [] \<Rightarrow> find (\<lambda>m. message_id m = mid) (message_history bus) = None
       | initial # replies \<Rightarrow>
          find (\<lambda>m. message_id m = mid) (message_history bus) = Some initial \<and>
          reply_chain (message_history bus) mid replies"
    with Some obtain replies where c: "conv = initial # replies"
      and r: "reply_chain (message_history bus) mid replies"
      by (cases conv) auto
    from find_replies_chain[OF r, of "[initial]"] Some c
    show "get_conversation bus mid = Some conv" by (simp add: get_conversation_def)
  qed
qed

lemma find_unique:
  assumes "x \<in> set h" "P x" "\<And>y. y \<in> set h \<Longrightarrow> P y \<Longrightarrow> y = x"
  shows "find P h = Some x"
proof (cases "find P h")
  case None
  then have "\<not> (\<exists>y. y \<in> set h \<and> P y)" by (simp add: find_None_iff)
  with assms(1,2) show ?thesis by blast
next
  case (Some y)
  then have "y \<in> set h" "P y" by (auto simp: find_Some_iff)
  with assms(3) have "y = x" by blast
  with Some show ?thesis by simp
qed

lemma thread_of_three_finds:
  assumes h: "set hist = {A, B, C}"
    and ids: "message_id A = i1" "message_id B = i2" "message_id C = i3" "distinct [i1, i2, i3]"
    and re: "in_reply_to B = i1" "in_reply_to C = i2" "in_reply_to A \<notin> {i1, i2, i3}"
  shows "find (\<lambda>m. message_id m = i1) hist = Some A"
    and "find (\<lambda>m. in_reply_to m = i1) hist = Some B"
    and "find (\<lambda>m. in_reply_to m = i2) hist = Some C"
    and "find (\<lambda>m. in_reply_to m = i3) hist = None"
proof -
  have mem: "A \<in> set hist" "B \<in> set hist" "C \<in> set hist"
    unfolding h by simp_all
  have cases: "y = A \<or> y = B \<or> y = C" if "y \<in> set hist" for y
    using that unfolding h by simp
  have ne: "i1 \<noteq> i2" "i1 \<noteq> i3" "i2 \<noteq> i3"
    using ids(4) by simp_all
  have ra: "in_reply_to A \<noteq> i1" "in_reply_to A \<noteq> i2" "in_reply_to A \<noteq> i3"
    using re(3) by simp_all
  show "find (\<lambda>m. message_id m = i1) hist = Some A"
  proof (rule find_unique)
    show "A \<in> set hist" by (rule mem)
    show "message_id A = i1" by (rule ids)
    fix y assume "y \<in> set hist" "message_id y = i1"
    with cases[of y] ids(2,3) ne show "y = A" by metis
  qed
  show "find (\<lambda>m. in_reply_to m = i1) hist = Some B"
  proof (rule find_unique)
    show "B \<in> set hist" by (rule mem)
    show "in_reply_to B = i1" by (rule re)
    fix y assume "y \<in> set hist" "in_reply_to y = i1"
    with cases[of y] re(2) ra ne show "y = B" by metis
  qed
  show "find (\<lambda>m. in_reply_to m = i2) hist = Some C"
  proof (rule find_unique)
    show "C \<in> set hist" by (rule mem)
    show "in_reply_to C = i2" by (rule re)
    fix y assume "y \<in> set hist" "in_reply_to y = i2"
    with cases[of y] re(1) ra ne show "y = C" by metis
  qed
  show "find (\<lambda>m. in_reply_to m = i3) hist = None"
  proof -
    have "in_reply_to y \<noteq> i3" if "y \<in> set hist" for y
      using cases[OF that] re(1,2) ra ne by metis
    then show ?thesis by (simp add: find_None_iff)
  qed
qed

lemma thread_of_three:
  assumes h: "set (message_history bus) = {A, B, C}"
    and ids: "message_id A = i1" "message_id B = i2" "message_id C = i3" "distinct [i1, i2, i3]"
    and re: "in_reply_to B = i1" "in_reply_to C = i2" "in_reply_to A \<notin> {i1, i2, i3}"
  shows "get_conversation bus i1 = Some [A, B, C]"
proof -
  note f = thread_of_three_finds[OF h ids re]
  have "reply_chain (message_history bus) i3 []" using f(4) by simp
  then have "reply_chain (message_history bus) i2 [C]" using f(3) ids(3) by simp
  then have "reply_chain (message_history bus) i1 [B, C]" using f(2) ids(2) by simp
  with f(1) show ?thesis by (simp add: get_conversation_result)
qed








lemma bus_with_history: "message_history (bus_with h) = h"
  by (simp add: bus_with_def)

lemma msgs_simps:
  "message_id msg_A = PStr ''1''" "message_id msg_B = PStr ''2''" "message_id msg_C = PStr ''3''"
  "message_id msg_B' = PStr ''4''"
  "in_reply_to msg_A = PNone" "in_reply_to msg_B = PStr ''1''" "in_reply_to msg_C = PStr ''2''"
  "in_reply_to msg_B' = PStr ''1''"
  by (simp_all add: msg_A_def msg_B_def msg_C_def msg_B'_def)

lemma finds_with_second_reply:
  "find (\<lambda>m. message_id m = PStr ''1'') [msg_A, msg_B, msg_B', msg_C] = Some msg_A"
  "find (\<lambda>m. in_reply_to m = PStr ''1'') [msg_A, msg_B, msg_B', msg_C] = Some msg_B"
  "find (\<lambda>m. in_reply_to m = PStr ''2'') [msg_A, msg_B, msg_B', msg_C] = Some msg_C"
  "find (\<lambda>m. in_reply_to m = PStr ''3'') [msg_A, msg_B, msg_B', msg_C] = None"
  by (simp_all add: msgs_simps)

lemma conversation_with_second_reply:
  "get_conversation (bus_with [msg_A, msg_B, msg_B', msg_C]) (PStr ''1'') =
     Some [msg_A, msg_B, msg_C]"
  by (simp add: get_conversation_result bus_with_history finds_with_second_reply msgs_simps)




section \<open>Termination of the threader\<close>



section \<open>The life of a task\<close>

text \<open>
  Claim C6. A new task, made by its constructor or by \<^verbatim>\<open>create_task\<close>, is in the state
  \<^verbatim>\<open>submitted\<close>. \<^verbatim>\<open>update_status\<close> replaces the status by one with the given state and message
  and the time of the call, and leaves the history, the artifacts, the identifier, the
  session and the metadata as they were; so after \<^verbatim>\<open>update_status(completed)\<close>,
  \<^verbatim>\<open>get_context()\<close> still returns all the messages. \<^verbatim>\<open>add_message\<close> adds one entry at the end
  of the history and \<^verbatim>\<open>add_artifact\<close> one entry at the end of the artifacts; neither changes
  the status.
\<close>

theorem task_lifecycle_frame:
  "state (status (Task_init uuid now s md)) = SUBMITTED \<and>
   state (status (fst (create_task uuid_s uuid_t now sid mdo mgr))) = SUBMITTED \<and>
   status (update_status now st msg t) =
     \<lparr>state = st, status_message = msg, status_timestamp = now\<rparr> \<and>
   history (update_status now st msg t) = history t \<and>
   artifacts (update_status now st msg t) = artifacts t \<and>
   task_id (update_status now st msg t) = task_id t \<and>
   session_id (update_status now st msg t) = session_id t \<and>
   task_metadata (update_status now st msg t) = task_metadata t \<and>
   get_context (update_status now COMPLETED msg t) None = history t \<and>
   history (add_message m t) = history t @ [m] \<and>
   status (add_message m t) = status t \<and>
   artifacts (add_message m t) = artifacts t \<and>
   artifacts (add_artifact a t) = artifacts t @ [a] \<and>
   status (add_artifact a t) = status t \<and>
   history (add_artifact a t) = history t"
  by (simp add: Task_init_def create_task_def Let_def update_status_def get_context_def
      add_message_def add_artifact_def)

section \<open>The context of a task\<close>

lemma slice_from_most_recent:
  "0 < n \<Longrightarrow> slice_from xs (- n) = most_recent (nat n) xs"
proof -
  assume "0 < n"
  then have "nat (int (length xs) + - n) = length xs - nat n" by simp
  with \<open>0 < n\<close> show ?thesis by (simp add: slice_from_def most_recent_def)
qed

lemma get_context_positive:
  "0 < n \<Longrightarrow> get_context t (Some n) = most_recent (nat n) (history t)"
  by (simp add: get_context_def slice_from_most_recent)

lemma get_context_all:
  "int (length (history t)) \<le> n \<Longrightarrow> get_context t (Some n) = history t"
  by (simp add: get_context_def slice_from_def)

lemma get_context_obj_copy:
  assumes "h < length store"
  shows "fst (get_context_obj store h mx) = length store \<and>
         fst (get_context_obj store h mx) \<noteq> h \<and>
         snd (get_context_obj store h mx) ! h = store ! h \<and>
         (\<forall>xs. (snd (get_context_obj store h mx))[fst (get_context_obj store h mx) := xs] ! h
                 = store ! h)"
  using assms by (simp add: get_context_obj_def Let_def nth_append)

lemma get_context_obj_value:
  assumes "store ! h = history t"
  shows "snd (get_context_obj store h mx) ! fst (get_context_obj store h mx) = get_context t mx"
  using assms by (cases mx) (simp_all add: get_context_obj_def Let_def get_context_def)

text \<open>
  Claim C7, as the code has it. For every task and every positive \<open>max\<close>, \<^verbatim>\<open>get_context(max)\<close>
  returns the \<open>max\<close> most recent entries of the history, in order; it returns all the
  entries when \<open>max\<close> is not given and when \<open>max\<close> is at least the length of the history.
  The list returned is a new list object, with these entries: whatever the caller puts in
  its place, the list of the task's history is as it was.
\<close>

theorem get_context_recent_copy:
  "(0 < n \<longrightarrow> get_context t (Some n) = most_recent (nat n) (history t)) \<and>
   get_context t None = history t \<and>
   (int (length (history t)) \<le> n' \<longrightarrow> get_context t (Some n') = history t) \<and>
   (h < length store \<and> store ! h = history t \<longrightarrow>
      snd (get_context_obj store h mx) ! fst (get_context_obj store h mx) = get_context t mx \<and>
      fst (get_context_obj store h mx) \<noteq> h \<and>
      snd (get_context_obj store h mx) ! h = history t \<and>
      (\<forall>xs. (snd (get_context_obj store h mx))[fst (get_context_obj store h mx) := xs] ! h
              = history t))"
proof (intro conjI impI)
  assume "0 < n"
  then show "get_context t (Some n) = most_recent (nat n) (history t)"
    by (rule get_context_positive)
next
  show "get_context t None = history t" by (simp add: get_context_def)
next
  assume "int (length (history t)) \<le> n'"
  then show "get_context t (Some n') = history t" by (rule get_context_all)
next
  assume a: "h < length store \<and> store ! h = history t"
  then show "snd (get_context_obj store h mx) ! fst (get_context_obj store h mx) = get_context t mx"
    by (simp add: get_context_obj_value)
  from a get_context_obj_copy[of h store mx]
  show "fst (get_context_obj store h mx) \<noteq> h" by blast
  from a get_context_obj_copy[of h store mx]
  show "snd (get_context_obj store h mx) ! h = history t" by simp
  from a get_context_obj_copy[of h store mx]
  show "\<forall>xs. (snd (get_context_obj store h mx))[fst (get_context_obj store h mx) := xs] ! h
              = history t" by simp
qed

lemma example_task_history:
  "history example_task = [text_message ''a'', text_message ''b'', text_message ''c'']"
  by (simp add: example_task_def add_message_def Task_init_def)

theorem get_context_recent_copy_witness:
  "get_context example_task (Some 2) = [text_message ''b'', text_message ''c''] \<and>
   get_context example_task None = [text_message ''a'', text_message ''b'', text_message ''c''] \<and>
   get_context example_task (Some 5) = [text_message ''a'', text_message ''b'', text_message ''c''] \<and>
   fst (get_context_obj [history example_task] 0 (Some 2)) = Suc 0 \<and>
   snd (get_context_obj [history example_task] 0 (Some 2)) ! Suc 0 =
     [text_message ''b'', text_message ''c''] \<and>
   (snd (get_context_obj [history example_task] 0 (Some 2)))[Suc 0 := []] ! 0 =
     [text_message ''a'', text_message ''b'', text_message ''c'']"
proof -
  note t = get_context_recent_copy [of 2 example_task 5 0 "[history example_task]" "Some 2"]
  have f: "fst (get_context_obj [history example_task] 0 (Some 2)) = Suc 0"
    by (simp add: get_context_obj_def Let_def)
  from t have 1: "get_context example_task (Some 2) = [text_message ''b'', text_message ''c'']"
    by (simp add: example_task_history most_recent_def)
  from t have 2: "get_context example_task None =
      [text_message ''a'', text_message ''b'', text_message ''c'']"
    by (simp add: example_task_history)
  from t have 3: "get_context example_task (Some 5) =
      [text_message ''a'', text_message ''b'', text_message ''c'']"
    by (simp add: example_task_history)
  from t have "snd (get_context_obj [history example_task] 0 (Some 2)) !
      fst (get_context_obj [history example_task] 0 (Some 2)) = get_context example_task (Some 2)"
    by simp
  then have 4: "snd (get_context_obj [history example_task] 0 (Some 2)) ! Suc 0 =
     [text_message ''b'', text_message ''c'']"
    unfolding f 1 .
  from t have "\<forall>xs. (snd (get_context_obj [history example_task] 0 (Some 2)))
      [fst (get_context_obj [history example_task] 0 (Some 2)) := xs] ! 0
      = history example_task"
    by simp
  then have "(snd (get_context_obj [history example_task] 0 (Some 2)))[Suc 0 := []] ! 0
      = history example_task"
    unfolding f by blast
  then have 5: "(snd (get_context_obj [history example_task] 0 (Some 2)))[Suc 0 := []] ! 0 =
     [text_message ''a'', text_message ''b'', text_message ''c'']"
    unfolding example_task_history .
  from 1 2 3 f 4 5 show ?thesis by blast
qed

text \<open>
  With \<open>max = 0\<close>, \<^verbatim>\<open>get_context\<close> returns the whole history of three messages, where the
  0 most recent entries are none; with \<open>max = -1\<close> it returns all but the first entry.
\<close>

theorem get_context_counterexample:
  "history example_task = [text_message ''a'', text_message ''b'', text_message ''c''] \<and>
   get_context example_task (Some 0) = [text_message ''a'', text_message ''b'', text_message ''c''] \<and>
   most_recent 0 (history example_task) = [] \<and>
   get_context example_task (Some (- 1)) = [text_message ''b'', text_message ''c'']"
  by (simp add: example_task_history get_context_def most_recent_def slice_from_def)

section \<open>The index of the task manager\<close>

lemma indexed_init: "indexed TaskManager_init []"
  by (simp add: indexed_def TaskManager_init_def)

lemma indexed_on_task:
  assumes i: "indexed mgr cr" and f: "\<And>t. task_id (f t) = task_id t \<and> session_id (f t) = session_id t"
  shows "indexed (on_task tid f mgr) cr"
proof (cases "tasks mgr tid")
  case None
  with i show ?thesis by (simp add: on_task_def)
next
  case (Some t)
  have s: "sessions (on_task tid f mgr) = sessions mgr" using Some by (simp add: on_task_def)
  have tk: "tasks (on_task tid f mgr) = (tasks mgr)(tid \<mapsto> f t)" using Some by (simp add: on_task_def)
  have d: "dom (tasks (on_task tid f mgr)) = dom (tasks mgr)"
    using Some unfolding tk by auto
  have "\<exists>t'. tasks (on_task tid f mgr) (fst p) = Some t' \<and> task_id t' = fst p \<and> session_id t' = snd p"
    if "p \<in> set cr" for p
  proof -
    from i that obtain u where u: "tasks mgr (fst p) = Some u" "task_id u = fst p" "session_id u = snd p"
      unfolding indexed_def by blast
    show ?thesis
    proof (cases "fst p = tid")
      case True
      with u Some have "u = t" by simp
      with u f[of t] True show ?thesis unfolding tk by simp
    next
      case False
      with u show ?thesis unfolding tk by simp
    qed
  qed
  with i s d show ?thesis unfolding indexed_def by simp
qed

lemma indexed_create:
  assumes i: "indexed mgr cr" and fresh: "uuid_t \<notin> fst ` set cr"
  shows "indexed (snd (create_task uuid_s uuid_t now sid md mgr))
           (cr @ [(uuid_t, (case sid of None \<Rightarrow> uuid_s | Some s \<Rightarrow> if s \<noteq> [] then s else uuid_s))])"
proof -
  define s where "s = (case sid of None \<Rightarrow> uuid_s | Some s \<Rightarrow> if s \<noteq> [] then s else uuid_s)"
  define task where "task = Task_init uuid_t now s (PDict (or_empty md))"
  define mgr' where "mgr' = snd (create_task uuid_s uuid_t now sid md mgr)"
  have tid: "task_id task = uuid_t" and ts: "session_id task = s"
    by (simp_all add: task_def Task_init_def)
  have tk: "tasks mgr' = (tasks mgr)(uuid_t \<mapsto> task)"
    by (simp add: mgr'_def create_task_def Let_def s_def task_def Task_init_def)
  have ss: "sessions mgr' = (sessions mgr)(s \<mapsto> (case sessions mgr s of None \<Rightarrow> [] | Some l \<Rightarrow> l) @ [uuid_t])"
    by (cases "sessions mgr s")
       (simp_all add: mgr'_def create_task_def Let_def s_def[symmetric] Task_init_def)
  from i have d: "distinct (map fst cr)" and dm: "dom (tasks mgr) = fst ` set cr"
    and tsk: "\<And>p. p \<in> set cr \<Longrightarrow> \<exists>t. tasks mgr (fst p) = Some t \<and> task_id t = fst p \<and> session_id t = snd p"
    and ses: "\<And>sid. sessions mgr sid =
        (if sid \<in> snd ` set cr then Some (map fst (filter (\<lambda>p. snd p = sid) cr)) else None)"
    unfolding indexed_def by blast+
  have 1: "distinct (map fst (cr @ [(uuid_t, s)]))" using d fresh by simp
  have 2: "dom (tasks mgr') = fst ` set (cr @ [(uuid_t, s)])" unfolding tk using dm by auto
  have 3: "\<exists>t. tasks mgr' (fst p) = Some t \<and> task_id t = fst p \<and> session_id t = snd p"
    if "p \<in> set (cr @ [(uuid_t, s)])" for p
  proof (cases "p = (uuid_t, s)")
    case True
    then show ?thesis unfolding tk using tid ts by simp
  next
    case False
    with that have pin: "p \<in> set cr" by simp
    with fresh have "fst p \<noteq> uuid_t" by auto
    with tsk[OF pin] show ?thesis unfolding tk by simp
  qed
  have 4: "sessions mgr' sid' =
        (if sid' \<in> snd ` set (cr @ [(uuid_t, s)])
         then Some (map fst (filter (\<lambda>p. snd p = sid') (cr @ [(uuid_t, s)]))) else None)" for sid'
  proof (cases "sid' = s")
    case True
    show ?thesis
    proof (cases "s \<in> snd ` set cr")
      case True
      with \<open>sid' = s\<close> ses[of s] show ?thesis unfolding ss by simp
    next
      case False
      then have "filter (\<lambda>p. snd p = s) cr = []" by (auto simp: filter_empty_conv)
      with False \<open>sid' = s\<close> ses[of s] show ?thesis unfolding ss by simp
    qed
  next
    case False
    with ses[of sid'] show ?thesis unfolding ss by auto
  qed
  from 1 2 3 4 have "indexed mgr' (cr @ [(uuid_t, s)])" unfolding indexed_def by blast
  then show ?thesis unfolding mgr'_def s_def .
qed

lemma indexed_step:
  assumes "indexed mgr cr" and "distinct (map fst (cr @ created [c]))"
  shows "indexed (step c mgr) (cr @ created [c])"
proof (cases c)
  case (Create_task uuid_s uuid_t now sid md)
  with assms(2) have "uuid_t \<notin> fst ` set cr" by auto
  from indexed_create[OF assms(1) this, of uuid_s now sid md] Create_task show ?thesis by simp
next
  case (Add_message tid msg)
  with indexed_on_task[OF assms(1), of "add_message msg" tid] show ?thesis
    by (simp add: add_message_def)
next
  case (Update_status tid now st msg)
  with indexed_on_task[OF assms(1), of "update_status now st msg" tid] show ?thesis
    by (simp add: update_status_def)
next
  case (Add_artifact tid a)
  with indexed_on_task[OF assms(1), of "add_artifact a" tid] show ?thesis
    by (simp add: add_artifact_def)
qed

lemma created_append: "created (c # cs) = created [c] @ created cs"
  by (cases c) simp_all

lemma indexed_run:
  assumes "indexed mgr cr" and "distinct (map fst (cr @ created cs))"
  shows "indexed (run cs mgr) (cr @ created cs)"
  using assms
proof (induction cs arbitrary: mgr cr)
  case Nil
  then show ?case by simp
next
  case (Cons c cs)
  from Cons.prems(2) have d: "distinct (map fst ((cr @ created [c]) @ created cs))"
    by (subst (asm) created_append) simp
  then have "distinct (map fst (cr @ created [c]))" by auto
  from indexed_step[OF Cons.prems(1) this] have "indexed (step c mgr) (cr @ created [c])" .
  from Cons.IH[OF this d] show ?case by (subst created_append) simp
qed

lemma indexed_session_tasks:
  assumes "indexed mgr cr"
  shows "map task_id (get_session_tasks mgr sid) = map fst (filter (\<lambda>p. snd p = sid) cr)"
proof -
  from assms have tsk: "\<And>p. p \<in> set cr \<Longrightarrow> \<exists>t. tasks mgr (fst p) = Some t \<and> task_id t = fst p"
    and ses: "sessions mgr sid =
        (if sid \<in> snd ` set cr then Some (map fst (filter (\<lambda>p. snd p = sid) cr)) else None)"
    unfolding indexed_def by blast+
  have m: "map task_id (List.map_filter (tasks mgr) (map fst ps)) = map fst ps"
    if "set ps \<subseteq> set cr" for ps
    using that
  proof (induction ps)
    case Nil
    then show ?case by simp
  next
    case (Cons p ps)
    then obtain t where "tasks mgr (fst p) = Some t" "task_id t = fst p" using tsk[of p] by auto
    with Cons show ?case by simp
  qed
  show ?thesis
  proof (cases "sid \<in> snd ` set cr")
    case True
    with ses m[of "filter (\<lambda>p. snd p = sid) cr"] show ?thesis
      by (simp add: get_session_tasks_def)
  next
    case False
    then have "filter (\<lambda>p. snd p = sid) cr = []" by (auto simp: filter_empty_conv)
    with False ses show ?thesis by (simp add: get_session_tasks_def)
  qed
qed

lemma indexed_reachable:
  assumes "distinct (map fst (created cs))"
  shows "indexed (run cs TaskManager_init) (created cs)"
  using indexed_run[OF indexed_init, of cs] assms by simp

lemma indexed_listed:
  assumes i: "indexed mgr cr" and s: "sessions mgr sid = Some l" and t: "tid \<in> set l"
  shows "(tid, sid) \<in> set cr"
proof -
  from i have "sessions mgr sid =
      (if sid \<in> snd ` set cr then Some (map fst (filter (\<lambda>p. snd p = sid) cr)) else None)"
    unfolding indexed_def by blast
  with s have "l = map fst (filter (\<lambda>p. snd p = sid) cr)" by (simp split: if_splits)
  with t show ?thesis by auto
qed

lemma indexed_unique:
  assumes i: "indexed mgr cr" and "(tid, sid) \<in> set cr" "(tid, sid') \<in> set cr"
  shows "sid = sid'"
proof -
  from i have "distinct (map fst cr)" unfolding indexed_def by blast
  with assms(2,3) show ?thesis by (meson eq_key_imp_eq_value)
qed

lemma indexed_distinct_list:
  assumes i: "indexed mgr cr" and s: "sessions mgr sid = Some l"
  shows "distinct l"
proof -
  from i have d: "distinct (map fst cr)" and "sessions mgr sid =
      (if sid \<in> snd ` set cr then Some (map fst (filter (\<lambda>p. snd p = sid) cr)) else None)"
    unfolding indexed_def by blast+
  with s have "l = map fst (filter (\<lambda>p. snd p = sid) cr)" by (simp split: if_splits)
  with d show ?thesis by (simp add: distinct_map_filter)
qed

lemma indexed_stored:
  assumes i: "indexed mgr cr" and "(tid, sid) \<in> set cr"
  shows "\<exists>t. tasks mgr tid = Some t \<and> task_id t = tid \<and> session_id t = sid"
  using assms unfolding indexed_def by fastforce

lemma indexed_session_tasks_stored:
  assumes "indexed mgr cr"
  shows "map Some (get_session_tasks mgr sid) =
         map (\<lambda>p. tasks mgr (fst p)) (filter (\<lambda>p. snd p = sid) cr)"
proof -
  from assms have tsk: "\<And>p. p \<in> set cr \<Longrightarrow> \<exists>t. tasks mgr (fst p) = Some t"
    and ses: "sessions mgr sid =
        (if sid \<in> snd ` set cr then Some (map fst (filter (\<lambda>p. snd p = sid) cr)) else None)"
    unfolding indexed_def by blast+
  have m: "map Some (List.map_filter (tasks mgr) (map fst ps)) = map (\<lambda>p. tasks mgr (fst p)) ps"
    if "set ps \<subseteq> set cr" for ps
    using that
  proof (induction ps)
    case Nil
    then show ?case by simp
  next
    case (Cons p ps)
    then obtain t where "tasks mgr (fst p) = Some t" using tsk[of p] by auto
    with Cons show ?case by simp
  qed
  show ?thesis
  proof (cases "sid \<in> snd ` set cr")
    case True
    with ses m[of "filter (\<lambda>p. snd p = sid) cr"] show ?thesis
      by (simp add: get_session_tasks_def)
  next
    case False
    then have "filter (\<lambda>p. snd p = sid) cr = []" by (auto simp: filter_empty_conv)
    with False ses show ?thesis by (simp add: get_session_tasks_def)
  qed
qed

lemma indexed_session_tasks_are_stored:
  assumes i: "indexed mgr cr" and t: "t \<in> set (get_session_tasks mgr sid)"
  shows "tasks mgr (task_id t) = Some t \<and> session_id t = sid"
proof -
  from t have "Some t \<in> set (map Some (get_session_tasks mgr sid))" by simp
  then have "Some t \<in> set (map (\<lambda>p. tasks mgr (fst p)) (filter (\<lambda>p. snd p = sid) cr))"
    unfolding indexed_session_tasks_stored[OF i] .
  then obtain p where p: "p \<in> set cr" "snd p = sid" "tasks mgr (fst p) = Some t" by auto
  from i p(1) obtain u where "tasks mgr (fst p) = Some u" "task_id u = fst p" "session_id u = snd p"
    unfolding indexed_def by blast
  with p show ?thesis by simp
qed

text \<open>
  Claim C10. After every sequence of \<^verbatim>\<open>create_task\<close> calls on a new manager (calls of the
  methods of the tasks may come between them), the task identifiers that \<^verbatim>\<open>uuid.uuid4()\<close>
  gave being pairwise different: every identifier in the list of a session is a key of
  \<^verbatim>\<open>tasks\<close>, and the task stored under it has that identifier and that session; an identifier
  is in the list of one session only, and once; \<^verbatim>\<open>get_session_tasks\<close> returns the tasks
  stored under the identifiers created in the session, in the order of their creation, each
  of them stored under its own identifier and of that session; and it returns the empty
  list for a session the manager has not seen.
\<close>

theorem manager_index_invariant:
  "distinct (map fst (created cs)) \<longrightarrow>
     (\<forall>sid l tid. sessions (run cs TaskManager_init) sid = Some l \<and> tid \<in> set l \<longrightarrow>
        (\<exists>t. tasks (run cs TaskManager_init) tid = Some t \<and> task_id t = tid \<and> session_id t = sid)) \<and>
     (\<forall>sid sid' l l' tid.
        sessions (run cs TaskManager_init) sid = Some l \<and> tid \<in> set l \<and>
        sessions (run cs TaskManager_init) sid' = Some l' \<and> tid \<in> set l' \<longrightarrow> sid = sid') \<and>
     (\<forall>sid l. sessions (run cs TaskManager_init) sid = Some l \<longrightarrow> distinct l) \<and>
     (\<forall>sid. map task_id (get_session_tasks (run cs TaskManager_init) sid) =
        map fst (filter (\<lambda>p. snd p = sid) (created cs))) \<and>
     (\<forall>sid. map Some (get_session_tasks (run cs TaskManager_init) sid) =
        map (\<lambda>p. tasks (run cs TaskManager_init) (fst p))
          (filter (\<lambda>p. snd p = sid) (created cs))) \<and>
     (\<forall>sid t. t \<in> set (get_session_tasks (run cs TaskManager_init) sid) \<longrightarrow>
        tasks (run cs TaskManager_init) (task_id t) = Some t \<and> session_id t = sid) \<and>
     (\<forall>sid. sessions (run cs TaskManager_init) sid = None \<longrightarrow>
        get_session_tasks (run cs TaskManager_init) sid = [])"
proof
  assume "distinct (map fst (created cs))"
  then have i: "indexed (run cs TaskManager_init) (created cs)" by (rule indexed_reachable)
  let ?m = "run cs TaskManager_init"
  have 1: "\<forall>sid l tid. sessions ?m sid = Some l \<and> tid \<in> set l \<longrightarrow>
        (\<exists>t. tasks ?m tid = Some t \<and> task_id t = tid \<and> session_id t = sid)"
    using indexed_listed[OF i] indexed_stored[OF i] by blast
  have 2: "\<forall>sid sid' l l' tid. sessions ?m sid = Some l \<and> tid \<in> set l \<and>
        sessions ?m sid' = Some l' \<and> tid \<in> set l' \<longrightarrow> sid = sid'"
    using indexed_listed[OF i] indexed_unique[OF i] by blast
  have 3: "\<forall>sid l. sessions ?m sid = Some l \<longrightarrow> distinct l"
    using indexed_distinct_list[OF i] by blast
  have 4: "\<forall>sid. map task_id (get_session_tasks ?m sid) =
        map fst (filter (\<lambda>p. snd p = sid) (created cs))"
    using indexed_session_tasks[OF i] by blast
  have 5: "\<forall>sid. map Some (get_session_tasks ?m sid) =
        map (\<lambda>p. tasks ?m (fst p)) (filter (\<lambda>p. snd p = sid) (created cs))"
    using indexed_session_tasks_stored[OF i] by blast
  have 6: "\<forall>sid t. t \<in> set (get_session_tasks ?m sid) \<longrightarrow>
        tasks ?m (task_id t) = Some t \<and> session_id t = sid"
    using indexed_session_tasks_are_stored[OF i] by blast
  have 7: "\<forall>sid. sessions ?m sid = None \<longrightarrow> get_session_tasks ?m sid = []"
    by (simp add: get_session_tasks_def)
  from 1 2 3 4 5 6 7 show "(\<forall>sid l tid. sessions ?m sid = Some l \<and> tid \<in> set l \<longrightarrow>
        (\<exists>t. tasks ?m tid = Some t \<and> task_id t = tid \<and> session_id t = sid)) \<and>
     (\<forall>sid sid' l l' tid. sessions ?m sid = Some l \<and> tid \<in> set l \<and>
        sessions ?m sid' = Some l' \<and> tid \<in> set l' \<longrightarrow> sid = sid') \<and>
     (\<forall>sid l. sessions ?m sid = Some l \<longrightarrow> distinct l) \<and>
     (\<forall>sid. map task_id (get_session_tasks ?m sid) =
        map fst (filter (\<lambda>p. snd p = sid) (created cs))) \<and>
     (\<forall>sid. map Some (get_session_tasks ?m sid) =
        map (\<lambda>p. tasks ?m (fst p)) (filter (\<lambda>p. snd p = sid) (created cs))) \<and>
     (\<forall>sid t. t \<in> set (get_session_tasks ?m sid) \<longrightarrow>
        tasks ?m (task_id t) = Some t \<and> session_id t = sid) \<and>
     (\<forall>sid. sessions ?m sid = None \<longrightarrow> get_session_tasks ?m sid = [])"
    by (intro conjI)
qed

lemma created_example:
  "created example_calls =
     [(''task-1'', ''uuid-1''), (''task-2'', ''uuid-1''), (''task-3'', ''other''),
      (''task-4'', ''uuid-1'')]"
  by (simp add: example_calls_def)

lemma sessions_example:
  "sessions (run example_calls TaskManager_init) ''uuid-1'' = Some [''task-1'', ''task-2'', ''task-4'']"
  "sessions (run example_calls TaskManager_init) ''nowhere'' = None"
  by (simp_all add: example_calls_def TaskManager_init_def create_task_def Let_def Task_init_def
      on_task_def add_message_def)

lemma tasks_example:
  "tasks (run example_calls TaskManager_init) ''task-1'' =
     Some (add_message (text_message ''a'')
       (Task_init ''task-1'' ''2025-01-01T00:00:00'' ''uuid-1'' (PDict fmempty)))"
  "tasks (run example_calls TaskManager_init) ''task-2'' =
     Some (Task_init ''task-2'' ''2025-01-01T00:00:01'' ''uuid-1'' (PDict fmempty))"
  "tasks (run example_calls TaskManager_init) ''task-4'' =
     Some (Task_init ''task-4'' ''2025-01-01T00:00:03'' ''uuid-1'' (PDict fmempty))"
  by (simp_all add: example_calls_def TaskManager_init_def create_task_def Let_def Task_init_def
      on_task_def add_message_def or_empty_def)

theorem manager_index_invariant_witness:
  "distinct (map fst (created example_calls)) \<and>
   sessions (run example_calls TaskManager_init) ''uuid-1'' = Some [''task-1'', ''task-2'', ''task-4''] \<and>
   (\<exists>t. tasks (run example_calls TaskManager_init) ''task-4'' = Some t \<and> task_id t = ''task-4'' \<and>
        session_id t = ''uuid-1'') \<and>
   map task_id (get_session_tasks (run example_calls TaskManager_init) ''uuid-1'') =
     [''task-1'', ''task-2'', ''task-4''] \<and>
   get_session_tasks (run example_calls TaskManager_init) ''uuid-1'' =
     [add_message (text_message ''a'')
        (Task_init ''task-1'' ''2025-01-01T00:00:00'' ''uuid-1'' (PDict fmempty)),
      Task_init ''task-2'' ''2025-01-01T00:00:01'' ''uuid-1'' (PDict fmempty),
      Task_init ''task-4'' ''2025-01-01T00:00:03'' ''uuid-1'' (PDict fmempty)] \<and>
   sessions (run example_calls TaskManager_init) ''nowhere'' = None \<and>
   get_session_tasks (run example_calls TaskManager_init) ''nowhere'' = []"
proof -
  have d: "distinct (map fst (created example_calls))" by (simp add: created_example)
  note t = manager_index_invariant [of example_calls, rule_format, OF d]
  from t have a: "\<And>sid l tid. sessions (run example_calls TaskManager_init) sid = Some l \<and> tid \<in> set l \<Longrightarrow>
        (\<exists>t. tasks (run example_calls TaskManager_init) tid = Some t \<and> task_id t = tid \<and> session_id t = sid)"
    by blast
  have 1: "\<exists>t. tasks (run example_calls TaskManager_init) ''task-4'' = Some t \<and> task_id t = ''task-4'' \<and>
        session_id t = ''uuid-1''"
    by (rule a[of "''uuid-1''" "[''task-1'', ''task-2'', ''task-4'']"]) (simp add: sessions_example)
  from t have "map task_id (get_session_tasks (run example_calls TaskManager_init) ''uuid-1'') =
        map fst (filter (\<lambda>p. snd p = ''uuid-1'') (created example_calls))"
    by blast
  then have 2: "map task_id (get_session_tasks (run example_calls TaskManager_init) ''uuid-1'') =
     [''task-1'', ''task-2'', ''task-4'']"
    by (simp add: created_example)
  from t have "map Some (get_session_tasks (run example_calls TaskManager_init) ''uuid-1'') =
        map (\<lambda>p. tasks (run example_calls TaskManager_init) (fst p))
          (filter (\<lambda>p. snd p = ''uuid-1'') (created example_calls))"
    by blast
  then have "map Some (get_session_tasks (run example_calls TaskManager_init) ''uuid-1'') =
     map Some [add_message (text_message ''a'')
        (Task_init ''task-1'' ''2025-01-01T00:00:00'' ''uuid-1'' (PDict fmempty)),
      Task_init ''task-2'' ''2025-01-01T00:00:01'' ''uuid-1'' (PDict fmempty),
      Task_init ''task-4'' ''2025-01-01T00:00:03'' ''uuid-1'' (PDict fmempty)]"
    by (simp add: created_example tasks_example)
  then have 4: "get_session_tasks (run example_calls TaskManager_init) ''uuid-1'' =
     [add_message (text_message ''a'')
        (Task_init ''task-1'' ''2025-01-01T00:00:00'' ''uuid-1'' (PDict fmempty)),
      Task_init ''task-2'' ''2025-01-01T00:00:01'' ''uuid-1'' (PDict fmempty),
      Task_init ''task-4'' ''2025-01-01T00:00:03'' ''uuid-1'' (PDict fmempty)]"
    by (rule map_injective) simp
  from t sessions_example(2)
  have 3: "get_session_tasks (run example_calls TaskManager_init) ''nowhere'' = []" by blast
  from d sessions_example 1 2 4 3 show ?thesis by blast
qed

section \<open>The context of a session\<close>

lemma get_session_context_truncation:
  "get_session_context mgr sid mx =
     get_context (t\<lparr>history := concat (map history (get_session_tasks mgr sid))\<rparr>) mx"
  by (cases mx) (simp_all add: get_session_context_def get_context_def Let_def)

lemma indexed_session_histories:
  assumes "indexed mgr cr"
  shows "map history (get_session_tasks mgr sid) =
         map (\<lambda>p. case tasks mgr (fst p) of None \<Rightarrow> [] | Some t \<Rightarrow> history t)
           (filter (\<lambda>p. snd p = sid) cr)"
proof -
  from assms have tsk: "\<And>p. p \<in> set cr \<Longrightarrow> \<exists>t. tasks mgr (fst p) = Some t"
    and ses: "sessions mgr sid =
        (if sid \<in> snd ` set cr then Some (map fst (filter (\<lambda>p. snd p = sid) cr)) else None)"
    unfolding indexed_def by blast+
  have m: "map history (List.map_filter (tasks mgr) (map fst ps)) =
           map (\<lambda>p. case tasks mgr (fst p) of None \<Rightarrow> [] | Some t \<Rightarrow> history t) ps"
    if "set ps \<subseteq> set cr" for ps
    using that
  proof (induction ps)
    case Nil
    then show ?case by simp
  next
    case (Cons p ps)
    then obtain t where "tasks mgr (fst p) = Some t" using tsk[of p] by auto
    with Cons show ?case by simp
  qed
  show ?thesis
  proof (cases "sid \<in> snd ` set cr")
    case True
    with ses m[of "filter (\<lambda>p. snd p = sid) cr"] show ?thesis
      by (simp add: get_session_tasks_def)
  next
    case False
    then have "filter (\<lambda>p. snd p = sid) cr = []" by (auto simp: filter_empty_conv)
    with False ses show ?thesis by (simp add: get_session_tasks_def)
  qed
qed

lemma two_tasks_context:
  assumes "s \<noteq> []" "t1 \<noteq> t2"
  shows "get_session_context
           (run [Create_task u1 t1 n1 (Some s) md1, Add_message t1 a,
                 Create_task u2 t2 n2 (Some s) md2, Add_message t2 c,
                 Add_message t1 b, Add_message t2 d] TaskManager_init) s None = [a, b, c, d]"
  using assms
  by (simp add: TaskManager_init_def create_task_def Let_def Task_init_def on_task_def
      add_message_def get_session_context_def get_session_tasks_def)

text \<open>
  Claim C8, as the code has it. \<^verbatim>\<open>get_session_context\<close> is what \<^verbatim>\<open>get_context\<close> returns for the
  concatenation of the histories of the tasks of the session (the same truncation, for every
  \<open>max\<close>). After any sequence of calls on a new manager, the task identifiers being pairwise
  different, that concatenation runs over the tasks created in the session, in the order of
  their creation. Two tasks created with the same explicit session identifier that is not
  the empty string, and given two messages each, give the four messages, those of the first
  task before those of the second.
\<close>

theorem session_context_aggregation:
  "get_session_context mgr sid mx =
     get_context (t\<lparr>history := concat (map history (get_session_tasks mgr sid))\<rparr>) mx \<and>
   (distinct (map fst (created cs)) \<longrightarrow>
      get_session_context (run cs TaskManager_init) sid' None =
        concat (map (\<lambda>p. case tasks (run cs TaskManager_init) (fst p) of
                            None \<Rightarrow> [] | Some t \<Rightarrow> history t)
                  (filter (\<lambda>p. snd p = sid') (created cs)))) \<and>
   (s \<noteq> [] \<and> t1 \<noteq> t2 \<longrightarrow>
      get_session_context
        (run [Create_task u1 t1 n1 (Some s) md1, Add_message t1 a,
              Create_task u2 t2 n2 (Some s) md2, Add_message t2 c,
              Add_message t1 b, Add_message t2 d] TaskManager_init) s None = [a, b, c, d])"
proof (intro conjI impI)
  show "get_session_context mgr sid mx =
     get_context (t\<lparr>history := concat (map history (get_session_tasks mgr sid))\<rparr>) mx"
    by (rule get_session_context_truncation)
next
  assume "distinct (map fst (created cs))"
  then have "indexed (run cs TaskManager_init) (created cs)" by (rule indexed_reachable)
  from indexed_session_histories[OF this, of sid']
  show "get_session_context (run cs TaskManager_init) sid' None =
        concat (map (\<lambda>p. case tasks (run cs TaskManager_init) (fst p) of
                            None \<Rightarrow> [] | Some t \<Rightarrow> history t)
                  (filter (\<lambda>p. snd p = sid') (created cs)))"
    by (simp add: get_session_context_def Let_def)
next
  assume "s \<noteq> [] \<and> t1 \<noteq> t2"
  then show "get_session_context
        (run [Create_task u1 t1 n1 (Some s) md1, Add_message t1 a,
              Create_task u2 t2 n2 (Some s) md2, Add_message t2 c,
              Add_message t1 b, Add_message t2 d] TaskManager_init) s None = [a, b, c, d]"
    using two_tasks_context by blast
qed

theorem session_context_aggregation_witness:
  "get_session_context (run example_calls TaskManager_init) ''uuid-1'' (Some 1) =
     get_context (example_task\<lparr>history :=
        concat (map history (get_session_tasks (run example_calls TaskManager_init) ''uuid-1''))\<rparr>)
       (Some 1) \<and>
   distinct (map fst (created example_calls)) \<and>
   get_session_context (run example_calls TaskManager_init) ''uuid-1'' None = [text_message ''a''] \<and>
   ''shared'' \<noteq> [] \<and> ''task-1'' \<noteq> ''task-2'' \<and>
   get_session_context
     (run [Create_task ''uuid-1'' ''task-1'' ''t0'' (Some ''shared'') None,
           Add_message ''task-1'' (text_message ''a''),
           Create_task ''uuid-2'' ''task-2'' ''t1'' (Some ''shared'') None,
           Add_message ''task-2'' (text_message ''c''),
           Add_message ''task-1'' (text_message ''b''),
           Add_message ''task-2'' (text_message ''d'')] TaskManager_init) ''shared'' None =
     [text_message ''a'', text_message ''b'', text_message ''c'', text_message ''d'']"
proof -
  note t = session_context_aggregation [of "run example_calls TaskManager_init" "''uuid-1''"
      "Some 1" example_task example_calls "''uuid-1''" "''shared''" "''task-1''" "''task-2''"
      "''uuid-1''" "''t0''" None "text_message ''a''" "''uuid-2''" "''t1''" None
      "text_message ''c''" "text_message ''b''" "text_message ''d''"]
  have d: "distinct (map fst (created example_calls))" by (simp add: created_example)
  have tk: "tasks (run example_calls TaskManager_init) ''task-1'' \<noteq> None \<and>
            (case tasks (run example_calls TaskManager_init) ''task-1'' of None \<Rightarrow> []
             | Some t \<Rightarrow> history t) = [text_message ''a'']"
    "(case tasks (run example_calls TaskManager_init) ''task-2'' of None \<Rightarrow> []
             | Some t \<Rightarrow> history t) = []"
    "(case tasks (run example_calls TaskManager_init) ''task-4'' of None \<Rightarrow> []
             | Some t \<Rightarrow> history t) = []"
    by (simp_all add: example_calls_def TaskManager_init_def create_task_def Let_def Task_init_def
        on_task_def add_message_def)
  from t have 1: "get_session_context (run example_calls TaskManager_init) ''uuid-1'' (Some 1) =
     get_context (example_task\<lparr>history :=
        concat (map history (get_session_tasks (run example_calls TaskManager_init) ''uuid-1''))\<rparr>)
       (Some 1)" by blast
  from t d have "get_session_context (run example_calls TaskManager_init) ''uuid-1'' None =
        concat (map (\<lambda>p. case tasks (run example_calls TaskManager_init) (fst p) of
                            None \<Rightarrow> [] | Some t \<Rightarrow> history t)
                  (filter (\<lambda>p. snd p = ''uuid-1'') (created example_calls)))" by blast
  then have 2: "get_session_context (run example_calls TaskManager_init) ''uuid-1'' None =
      [text_message ''a'']"
    by (simp add: created_example tk)
  have n: "''shared'' \<noteq> [] \<and> ''task-1'' \<noteq> ''task-2''" by simp
  with t have 3: "get_session_context
     (run [Create_task ''uuid-1'' ''task-1'' ''t0'' (Some ''shared'') None,
           Add_message ''task-1'' (text_message ''a''),
           Create_task ''uuid-2'' ''task-2'' ''t1'' (Some ''shared'') None,
           Add_message ''task-2'' (text_message ''c''),
           Add_message ''task-1'' (text_message ''b''),
           Add_message ''task-2'' (text_message ''d'')] TaskManager_init) ''shared'' None =
     [text_message ''a'', text_message ''b'', text_message ''c'', text_message ''d'']"
    by blast
  from 1 d 2 n 3 show ?thesis by blast
qed

text \<open>
  With the empty string as the explicit session identifier, each of the two tasks gets a
  session of its own: the context of the session \<^verbatim>\<open>""\<close> is empty, and the session of the first
  task has its two messages only.
\<close>

theorem session_context_counterexample:
  "get_session_context
     (run [Create_task ''uuid-1'' ''task-1'' ''t0'' (Some '''') None,
           Add_message ''task-1'' (text_message ''a''),
           Create_task ''uuid-2'' ''task-2'' ''t1'' (Some '''') None,
           Add_message ''task-2'' (text_message ''c''),
           Add_message ''task-1'' (text_message ''b''),
           Add_message ''task-2'' (text_message ''d'')] TaskManager_init) '''' None = [] \<and>
   get_session_context
     (run [Create_task ''uuid-1'' ''task-1'' ''t0'' (Some '''') None,
           Add_message ''task-1'' (text_message ''a''),
           Create_task ''uuid-2'' ''task-2'' ''t1'' (Some '''') None,
           Add_message ''task-2'' (text_message ''c''),
           Add_message ''task-1'' (text_message ''b''),
           Add_message ''task-2'' (text_message ''d'')] TaskManager_init) ''uuid-1'' None =
     [text_message ''a'', text_message ''b'']"
  by (simp add: TaskManager_init_def create_task_def Let_def Task_init_def on_task_def
      add_message_def get_session_context_def get_session_tasks_def)

end
